theory Spec2Isabelle
  imports Complex_Main
begin

section \<open>Python values used by the sources\<close>

text \<open>
  A string is the UTF-8 text of a Python \<open>str\<close>. Splitting at an ASCII separator and
  testing for an ASCII suffix are the same on the bytes as on the code points. The methods
  that depend on the Unicode tables (\<open>str.isdigit\<close>, \<open>int\<close> of a text, \<open>str.upper\<close>,
  \<open>str.strip\<close>, \<open>str.splitlines\<close>) are defined here on ASCII text; on a text with a
  non-ASCII character they are operations of the library record below, about which
  nothing is assumed. A float is its real value, or one of the two infinities or NaN;
  float arithmetic, which rounds and overflows, is an operation of the library record as
  well, and only comparison and \<open>int\<close> of a float, which are exact, are defined here.
\<close>

datatype exn =
    AttributeError string
  | TypeError string
  | ValueError string
  | IndexError string
  | ZeroDivisionError string
  | OverflowError string
  | LibraryError string

fun str_exn :: "exn \<Rightarrow> string" where
  "str_exn (AttributeError m) = m"
| "str_exn (TypeError m) = m"
| "str_exn (ValueError m) = m"
| "str_exn (IndexError m) = m"
| "str_exn (ZeroDivisionError m) = m"
| "str_exn (OverflowError m) = m"
| "str_exn (LibraryError m) = m"

datatype pyfloat = Float real | PosInf | NegInf | NaN

fun flt :: "pyfloat \<Rightarrow> pyfloat \<Rightarrow> bool" where
  "flt (Float a) (Float b) = (a < b)"
| "flt (Float a) PosInf = True"
| "flt NegInf (Float b) = True"
| "flt NegInf PosInf = True"
| "flt _ _ = False"

fun fle :: "pyfloat \<Rightarrow> pyfloat \<Rightarrow> bool" where
  "fle (Float a) (Float b) = (a \<le> b)"
| "fle (Float a) PosInf = True"
| "fle NegInf (Float b) = True"
| "fle NegInf NegInf = True"
| "fle NegInf PosInf = True"
| "fle PosInf PosInf = True"
| "fle _ _ = False"

text \<open>A value of a JSON parameter dictionary: a number, or anything else.\<close>

datatype pyval = Num pyfloat | NonNum

text \<open>\<open>a < b\<close> of a float and a parameter value: TypeError unless the value is a number.\<close>

definition unorderable :: exn where
  "unorderable = TypeError ''not supported between instances''"

fun lt_val :: "pyfloat \<Rightarrow> pyval \<Rightarrow> exn + bool" where
  "lt_val a (Num b) = Inr (flt a b)"
| "lt_val a NonNum = Inl unorderable"

text \<open>\<open>int(x)\<close> of a float: truncation towards zero.\<close>

fun py_int :: "pyfloat \<Rightarrow> exn + int" where
  "py_int (Float x) = Inr (if 0 \<le> x then \<lfloor>x\<rfloor> else \<lceil>x\<rceil>)"
| "py_int NaN = Inl (ValueError ''cannot convert float NaN to integer'')"
| "py_int _ = Inl (OverflowError ''cannot convert float infinity to integer'')"

subsection \<open>Strings\<close>

definition is_ascii :: "string \<Rightarrow> bool" where
  "is_ascii s = list_all (\<lambda>c. \<not> digit7 c) s"

definition isspace :: "char \<Rightarrow> bool" where
  "isspace c = (c \<in> set [CHR 0x09, CHR 0x0A, CHR 0x0B, CHR 0x0C, CHR 0x0D,
                          CHR 0x1C, CHR 0x1D, CHR 0x1E, CHR 0x1F, CHR 0x20])"

definition ascii_strip :: "string \<Rightarrow> string" where
  "ascii_strip s = rev (dropWhile isspace (rev (dropWhile isspace s)))"

definition endswith :: "string \<Rightarrow> string \<Rightarrow> bool" where
  "endswith s suf = (length suf \<le> length s \<and> drop (length s - length suf) s = suf)"

text \<open>\<open>s.split(sep)\<close> with a one-character separator: never the empty list.\<close>

fun split_from :: "char \<Rightarrow> string \<Rightarrow> string \<Rightarrow> string list" where
  "split_from sep cur [] = [cur]"
| "split_from sep cur (c # cs) =
     (if c = sep then cur # split_from sep [] cs else split_from sep (cur @ [c]) cs)"

definition split_on :: "char \<Rightarrow> string \<Rightarrow> string list" where
  "split_on sep s = split_from sep [] s"

definition is_linebreak :: "char \<Rightarrow> bool" where
  "is_linebreak c = (c \<in> set [CHR 0x0A, CHR 0x0B, CHR 0x0C, CHR 0x0D, CHR 0x1C, CHR 0x1D, CHR 0x1E])"

text \<open>\<open>s.splitlines()\<close>: a CR LF pair is one break; no empty last line after a final break.\<close>

fun splitlines_from :: "string \<Rightarrow> string \<Rightarrow> string list" where
  "splitlines_from cur [] = (if cur = [] then [] else [cur])"
| "splitlines_from cur [c] = (if is_linebreak c then [cur] else [cur @ [c]])"
| "splitlines_from cur (c # d # cs) =
     (if c = CHR 0x0D \<and> d = CHR 0x0A then cur # splitlines_from [] cs
      else if is_linebreak c then cur # splitlines_from [] (d # cs)
      else splitlines_from (cur @ [c]) (d # cs))"

definition ascii_splitlines :: "string \<Rightarrow> string list" where
  "ascii_splitlines s = splitlines_from [] s"

definition upper_char :: "char \<Rightarrow> char" where
  "upper_char c =
     (case map_of (zip ''abcdefghijklmnopqrstuvwxyz'' ''ABCDEFGHIJKLMNOPQRSTUVWXYZ'') c of
        Some u \<Rightarrow> u | None \<Rightarrow> c)"

definition ascii_upper :: "string \<Rightarrow> string" where
  "ascii_upper s = map upper_char s"

definition digit_chars :: string where
  "digit_chars = ''0123456789''"

definition ascii_isdigit :: "string \<Rightarrow> bool" where
  "ascii_isdigit p = (p \<noteq> [] \<and> list_all (\<lambda>c. c \<in> set digit_chars) p)"

definition digit_val :: "char \<Rightarrow> nat" where
  "digit_val c = (case map_of (zip digit_chars [0, 1, 2, 3, 4, 5, 6, 7, 8, 9]) c of
                    Some d \<Rightarrow> d | None \<Rightarrow> 0)"

text \<open>\<open>int(p)\<close> on a string of decimal digits.\<close>

definition int_of_digits :: "string \<Rightarrow> nat" where
  "int_of_digits p = foldl (\<lambda>a c. 10 * a + digit_val c) 0 p"

text \<open>\<open>str(n)\<close> of a natural number and of an integer.\<close>

fun str_nat :: "nat \<Rightarrow> string" where
  "str_nat n = (if n < 10 then [digit_chars ! n] else str_nat (n div 10) @ [digit_chars ! (n mod 10)])"

declare str_nat.simps [simp del]

definition str_int :: "int \<Rightarrow> string" where
  "str_int i = (if i < 0 then CHR ''-'' # str_nat (nat (- i)) else str_nat (nat i))"

section \<open>Geometries and the geometry library\<close>

type_synonym coord = "real \<times> real"

text \<open>
  The geometry objects of the library, by type. A point holds no or one coordinate; a
  polygon an exterior ring and its interior rings.
\<close>

datatype geometry =
    Point "coord list"
  | LineString "coord list"
  | LinearRing "coord list"
  | Polygon "coord list" "coord list list"
  | MultiPoint "coord list"
  | MultiLineString "coord list list"
  | MultiPolygon "(coord list \<times> coord list list) list"
  | GeometryCollection "geometry list"

fun geom_type :: "geometry \<Rightarrow> string" where
  "geom_type (Point _) = ''Point''"
| "geom_type (LineString _) = ''LineString''"
| "geom_type (LinearRing _) = ''LinearRing''"
| "geom_type (Polygon _ _) = ''Polygon''"
| "geom_type (MultiPoint _) = ''MultiPoint''"
| "geom_type (MultiLineString _) = ''MultiLineString''"
| "geom_type (MultiPolygon _) = ''MultiPolygon''"
| "geom_type (GeometryCollection _) = ''GeometryCollection''"

fun is_empty :: "geometry \<Rightarrow> bool" where
  "is_empty (Point cs) = (cs = [])"
| "is_empty (LineString cs) = (cs = [])"
| "is_empty (LinearRing cs) = (cs = [])"
| "is_empty (Polygon ext ints) = (ext = [])"
| "is_empty (MultiPoint cs) = (cs = [])"
| "is_empty (MultiLineString ps) = list_all (\<lambda>p. p = []) ps"
| "is_empty (MultiPolygon ps) = list_all (\<lambda>p. fst p = []) ps"
| "is_empty (GeometryCollection gs) = list_all is_empty gs"

text \<open>
  The operations of the geometry library and of the Python runtime (the string methods on
  non-ASCII text, float division and multiplication, string formatting) that the sources
  call and do not define. They are parameters of the model: a theorem holds for every
  library. A library call that raises returns \<open>Inl\<close>. \<open>collection_error\<close> is the
  exception of the MultiLineString constructor on members it does not take.
\<close>

record library =
  wkt_loads :: "string \<Rightarrow> exn + geometry"
  wkt :: "geometry \<Rightarrow> string"
  distance :: "geometry \<Rightarrow> geometry option \<Rightarrow> exn + pyfloat"
  snap :: "geometry \<Rightarrow> geometry \<Rightarrow> pyval \<Rightarrow> exn + geometry"
  simplify :: "geometry \<Rightarrow> pyval \<Rightarrow> exn + geometry"
  buffer :: "geometry \<Rightarrow> exn + geometry"
  make_valid :: "geometry \<Rightarrow> exn + geometry"
  interpolate :: "geometry \<Rightarrow> pyfloat \<Rightarrow> exn + coord"
  geom_length :: "geometry \<Rightarrow> real"
  centroid :: "geometry \<Rightarrow> coord"
  is_simple :: "geometry \<Rightarrow> bool"
  is_valid :: "geometry \<Rightarrow> bool"
  explain_validity :: "geometry \<Rightarrow> string"
  new_LineString :: "coord list \<Rightarrow> exn + geometry"
  new_LinearRing :: "coord list \<Rightarrow> exn + geometry"
  new_Polygon :: "geometry \<Rightarrow> geometry list \<Rightarrow> exn + geometry"
  collection_error :: "geometry list \<Rightarrow> exn"
  format_fixed :: "nat \<Rightarrow> pyfloat \<Rightarrow> string"
  str_val :: "pyval \<Rightarrow> string"
  fdiv :: "real \<Rightarrow> pyval \<Rightarrow> exn + pyfloat"
  imul :: "nat \<Rightarrow> pyval \<Rightarrow> exn + pyfloat"
  unicode_isdigit :: "string \<Rightarrow> bool"
  unicode_int :: "string \<Rightarrow> exn + nat"
  unicode_upper :: "string \<Rightarrow> string"
  unicode_strip :: "string \<Rightarrow> string"
  unicode_splitlines :: "string \<Rightarrow> string list"

text \<open>
  The string methods: on ASCII text as defined above, on other text as the library has
  them. \<open>int_str\<close> is \<open>int(p)\<close> for a token \<open>p\<close> that \<open>isdigit\<close>: it can raise ValueError on
  a non-ASCII digit such as a superscript, and its value is never negative.
\<close>

definition strip :: "library \<Rightarrow> string \<Rightarrow> string" where
  "strip lib s = (if is_ascii s then ascii_strip s else unicode_strip lib s)"

definition splitlines :: "library \<Rightarrow> string \<Rightarrow> string list" where
  "splitlines lib s = (if is_ascii s then ascii_splitlines s else unicode_splitlines lib s)"

definition upper :: "library \<Rightarrow> string \<Rightarrow> string" where
  "upper lib s = (if is_ascii s then ascii_upper s else unicode_upper lib s)"

definition isdigit :: "library \<Rightarrow> string \<Rightarrow> bool" where
  "isdigit lib p = (if is_ascii p then ascii_isdigit p else unicode_isdigit lib p)"

definition int_str :: "library \<Rightarrow> string \<Rightarrow> exn + nat" where
  "int_str lib p = (if is_ascii p then Inr (int_of_digits p) else unicode_int lib p)"

text \<open>
  \<open>MultiLineString(lines)\<close>: every member must be a non-empty line (a LineString, or a
  LinearRing, which is taken by its coordinates); the collection holds their coordinate
  lists in order. Any other member makes the constructor raise.
\<close>

fun is_line :: "geometry \<Rightarrow> bool" where
  "is_line (LineString cs) = (cs \<noteq> [])"
| "is_line (LinearRing cs) = (cs \<noteq> [])"
| "is_line _ = False"

fun line_of :: "geometry \<Rightarrow> coord list" where
  "line_of (LineString cs) = cs"
| "line_of (LinearRing cs) = cs"
| "line_of _ = []"

definition new_MultiLineString :: "library \<Rightarrow> geometry list \<Rightarrow> exn + geometry" where
  "new_MultiLineString lib gs =
     (if list_all is_line gs then Inr (MultiLineString (map line_of gs))
      else Inl (collection_error lib gs))"

text \<open>\<open>bool(geom)\<close> of an optional geometry: None and an empty geometry are false.\<close>

fun truthy :: "geometry option \<Rightarrow> bool" where
  "truthy None = False"
| "truthy (Some g) = (\<not> is_empty g)"

text \<open>\<open>geom.is_ring\<close>: closed and simple.\<close>

fun is_closed :: "geometry \<Rightarrow> bool" where
  "is_closed (LineString cs) = (cs \<noteq> [] \<and> hd cs = last cs)"
| "is_closed (LinearRing cs) = (cs \<noteq> [] \<and> hd cs = last cs)"
| "is_closed _ = False"

definition is_ring :: "library \<Rightarrow> geometry \<Rightarrow> bool" where
  "is_ring lib g = (is_closed g \<and> is_simple lib g)"

section \<open>The fix engine (fix_engine.py)\<close>

record fix_record =
  error_id :: string
  fix_type :: string
  original :: string
  result :: string
  timestamp :: string

text \<open>
  The engine's three fields. A slot of either list holds a geometry or None (a slot that
  failed to parse, or a deleted one).
\<close>

record engine =
  original_geometries :: "geometry option list"
  current_geometries :: "geometry option list"
  applied_fixes :: "fix_record list"

record response =
  success :: bool
  message :: string

subsection \<open>load_wkt_content\<close>

text \<open>
  The loop over the lines: \<open>buf\<close> gathers the stripped non-blank lines of a statement; a
  line that ends with a closing parenthesis ends the statement. A statement that parses to
  a non-empty geometry is appended, one that parses to an empty geometry is dropped, and
  one that fails to parse is appended as None.
\<close>

fun load_loop :: "library \<Rightarrow> string list \<Rightarrow> string \<Rightarrow> geometry option list \<Rightarrow> geometry option list" where
  "load_loop lib [] buf acc = acc"
| "load_loop lib (line_str # rest) buf acc =
     (let stripped = strip lib line_str in
      if stripped = [] then load_loop lib rest buf acc
      else
        let buf' = buf @ stripped @ '' '' in
        if endswith stripped '')'' then
          (case wkt_loads lib (last (split_on (CHR '';'') buf')) of
             Inr geom \<Rightarrow>
               if \<not> is_empty geom then load_loop lib rest [] (acc @ [Some geom])
               else load_loop lib rest [] acc
           | Inl ex \<Rightarrow> load_loop lib rest [] (acc @ [None]))
        else load_loop lib rest buf' acc)"

text \<open>
  The deep copy of the loaded list is the list itself: values are immutable here. Nothing
  in the body raises outside the inner handler, so the outer handler, which returns 0, is
  never entered. The result is the new engine and the returned count.
\<close>

definition load_wkt_content :: "library \<Rightarrow> engine \<Rightarrow> string \<Rightarrow> engine \<times> nat" where
  "load_wkt_content lib e wkt_content =
     (let loaded = load_loop lib (splitlines lib wkt_content) [] [] in
      (e\<lparr>original_geometries := loaded, current_geometries := loaded, applied_fixes := []\<rparr>,
       length loaded))"

subsection \<open>get_geometry\<close>

definition get_geometry :: "engine \<Rightarrow> int \<Rightarrow> geometry option" where
  "get_geometry e index =
     (if 0 \<le> index \<and> index < int (length (current_geometries e))
      then current_geometries e ! nat index
      else None)"

subsection \<open>apply_fix\<close>

text \<open>
  The loop over the tokens: the first token that \<open>isdigit\<close> is passed to \<open>int\<close>, which
  gives the index or raises; \<open>-1\<close> when no token \<open>isdigit\<close>. The interpreter's limit on the
  length of a decimal text that \<open>int\<close> accepts is not modelled.
\<close>

fun find_index :: "library \<Rightarrow> string list \<Rightarrow> exn + int" where
  "find_index lib [] = Inr (- 1)"
| "find_index lib (p # ps) =
     (if isdigit lib p then
        (case int_str lib p of Inl ex \<Rightarrow> Inl ex | Inr n \<Rightarrow> Inr (int n))
      else find_index lib ps)"

text \<open>\<open>params.get(key, default) if params else default\<close>: None and the empty dictionary are false.\<close>

fun params_get :: "(string \<times> pyval) list option \<Rightarrow> string \<Rightarrow> pyval \<Rightarrow> pyval" where
  "params_get None key dflt = dflt"
| "params_get (Some []) key dflt = dflt"
| "params_get (Some kvs) key dflt = (case map_of kvs key of None \<Rightarrow> dflt | Some v \<Rightarrow> v)"

text \<open>
  What a strategy branch ends with: a \<open>return\<close> of its own, or the list after the
  branch's assignment together with \<open>fix_result\<close>, on the way to the logging step.
\<close>

datatype outcome = Return response | Fixed "geometry option list" string

text \<open>
  The loop of the SNAP strategy over \<open>enumerate(self.current_geometries)\<close>, with the pair
  \<open>(best_snap, min_dist)\<close> as its state. The slot \<open>idx\<close> is skipped; every other slot,
  None included, is passed to \<open>geom.distance\<close>.
\<close>

fun snap_scan :: "library \<Rightarrow> geometry \<Rightarrow> pyval \<Rightarrow> nat \<Rightarrow> nat \<Rightarrow> geometry option list \<Rightarrow>
    geometry option \<times> pyfloat \<Rightarrow> exn + (geometry option \<times> pyfloat)" where
  "snap_scan lib geom tolerance idx i [] st = Inr st"
| "snap_scan lib geom tolerance idx i (other # rest) (best_snap, min_dist) =
     (if i = idx then snap_scan lib geom tolerance idx (Suc i) rest (best_snap, min_dist)
      else
        (case distance lib geom other of
           Inl ex \<Rightarrow> Inl ex
         | Inr d \<Rightarrow>
             if flt d min_dist then
               (case lt_val d tolerance of
                  Inl ex \<Rightarrow> Inl ex
                | Inr True \<Rightarrow> snap_scan lib geom tolerance idx (Suc i) rest (other, d)
                | Inr False \<Rightarrow> snap_scan lib geom tolerance idx (Suc i) rest (best_snap, min_dist))
             else snap_scan lib geom tolerance idx (Suc i) rest (best_snap, min_dist)))"

definition no_snap :: outcome where
  "no_snap = Return \<lparr>success = False, message = ''No geometry found within snap tolerance''\<rparr>"

definition snap_fix :: "library \<Rightarrow> geometry option list \<Rightarrow> nat \<Rightarrow> geometry \<Rightarrow>
    (string \<times> pyval) list option \<Rightarrow> exn + outcome" where
  "snap_fix lib cur idx geom params =
     (let tolerance = params_get params ''tolerance'' (Num (Float 0.5)) in
      case snap_scan lib geom tolerance idx 0 cur (None, PosInf) of
        Inl ex \<Rightarrow> Inl ex
      | Inr (best_snap, min_dist) \<Rightarrow>
          (case best_snap of
             None \<Rightarrow> Inr no_snap
           | Some target \<Rightarrow>
               if is_empty target then Inr no_snap
               else
                 (case snap lib geom target tolerance of
                    Inl ex \<Rightarrow> Inl ex
                  | Inr snapped_geom \<Rightarrow>
                      Inr (Fixed (cur[idx := Some snapped_geom])
                        (''Snapped to nearest geometry (dist: '' @ format_fixed lib 4 min_dist @ '')'')))))"

definition simplify_fix :: "library \<Rightarrow> geometry option list \<Rightarrow> nat \<Rightarrow> geometry \<Rightarrow>
    (string \<times> pyval) list option \<Rightarrow> exn + outcome" where
  "simplify_fix lib cur idx geom params =
     (let tolerance = params_get params ''tolerance'' (Num (Float 0.5)) in
      case simplify lib geom tolerance of
        Inl ex \<Rightarrow> Inl ex
      | Inr simplified \<Rightarrow>
          Inr (Fixed (cur[idx := Some simplified])
            (''Simplified geometry (tolerance: '' @ str_val lib tolerance @ '')'')))"

text \<open>\<open>coords[0]\<close> of an empty coordinate list raises IndexError.\<close>

definition close_fix :: "library \<Rightarrow> geometry option list \<Rightarrow> nat \<Rightarrow> geometry \<Rightarrow> exn + outcome" where
  "close_fix lib cur idx geom =
     (case geom of
        Polygon _ _ \<Rightarrow> Inr (Fixed cur ''Ring already closed'')
      | LinearRing _ \<Rightarrow> Inr (Fixed cur ''Ring already closed'')
      | LineString coords \<Rightarrow>
          if coords = [] then Inl (IndexError ''list index out of range'')
          else if hd coords \<noteq> last coords then
            (case new_LineString lib (coords @ [hd coords]) of
               Inl ex \<Rightarrow> Inl ex
             | Inr closed_ring \<Rightarrow>
                 Inr (Fixed (cur[idx := Some closed_ring]) ''Closed the ring by connecting end to start''))
          else Inr (Fixed cur ''Ring already closed'')
      | _ \<Rightarrow> Inr (Fixed cur ''Close not applicable to this geometry type''))"

text \<open>A list comprehension over calls that may raise: the first exception ends it.\<close>

fun map_exn :: "('a \<Rightarrow> exn + 'b) \<Rightarrow> 'a list \<Rightarrow> exn + 'b list" where
  "map_exn f [] = Inr []"
| "map_exn f (x # xs) =
     (case f x of
        Inl ex \<Rightarrow> Inl ex
      | Inr y \<Rightarrow> (case map_exn f xs of Inl ex \<Rightarrow> Inl ex | Inr ys \<Rightarrow> Inr (y # ys)))"

definition reverse_fix :: "library \<Rightarrow> geometry option list \<Rightarrow> nat \<Rightarrow> geometry \<Rightarrow> exn + outcome" where
  "reverse_fix lib cur idx geom =
     (case geom of
        Polygon exterior interiors \<Rightarrow>
          (case new_LinearRing lib (rev exterior) of
             Inl ex \<Rightarrow> Inl ex
           | Inr ext \<Rightarrow>
               (case map_exn (\<lambda>r. new_LinearRing lib (rev r)) interiors of
                  Inl ex \<Rightarrow> Inl ex
                | Inr ints \<Rightarrow>
                    (case new_Polygon lib ext ints of
                       Inl ex \<Rightarrow> Inl ex
                     | Inr reversed_poly \<Rightarrow>
                         Inr (Fixed (cur[idx := Some reversed_poly]) ''Reversed winding order''))))
      | LineString coords \<Rightarrow>
          (case new_LineString lib (rev coords) of
             Inl ex \<Rightarrow> Inl ex
           | Inr reversed_line \<Rightarrow>
               Inr (Fixed (cur[idx := Some reversed_line]) ''Reversed coordinate order''))
      | _ \<Rightarrow> Inr (Fixed cur ''Reverse not applicable''))"

definition densify_fix :: "library \<Rightarrow> geometry option list \<Rightarrow> nat \<Rightarrow> geometry \<Rightarrow>
    (string \<times> pyval) list option \<Rightarrow> exn + outcome" where
  "densify_fix lib cur idx geom params =
     (case geom of
        LineString _ \<Rightarrow>
          (let interval = params_get params ''interval'' (Num (Float 1)) in
           case fdiv lib (geom_length lib geom) interval of
             Inl ex \<Rightarrow> Inl ex
           | Inr q \<Rightarrow>
               (case py_int q of
                  Inl ex \<Rightarrow> Inl ex
                | Inr n \<Rightarrow>
                    (let num_points = max n 2 in
                     case map_exn
                            (\<lambda>i. case imul lib i interval of
                                   Inl ex \<Rightarrow> Inl ex
                                 | Inr d \<Rightarrow> interpolate lib geom d)
                            [0 ..< nat num_points + 1] of
                       Inl ex \<Rightarrow> Inl ex
                     | Inr points \<Rightarrow>
                         (case new_LineString lib points of
                            Inl ex \<Rightarrow> Inl ex
                          | Inr densified \<Rightarrow>
                              Inr (Fixed (cur[idx := Some densified])
                                (''Densified with '' @ str_int num_points @ '' points''))))))
      | _ \<Rightarrow> Inr (Fixed cur ''Densify not applicable to this geometry type''))"

text \<open>The chain of strategies, by the upper-cased fix type, in the order of the source.\<close>

definition dispatch :: "library \<Rightarrow> geometry option list \<Rightarrow> nat \<Rightarrow> geometry \<Rightarrow> string \<Rightarrow>
    (string \<times> pyval) list option \<Rightarrow> exn + outcome" where
  "dispatch lib cur idx geom ftype params =
     (if upper lib ftype = ''SNAP'' then snap_fix lib cur idx geom params
      else if upper lib ftype = ''DELETE'' then Inr (Fixed (cur[idx := None]) ''Deleted geometry'')
      else if upper lib ftype = ''SIMPLIFY'' then simplify_fix lib cur idx geom params
      else if upper lib ftype = ''BUFFER'' then
        (case buffer lib geom of
           Inl ex \<Rightarrow> Inl ex
         | Inr buffered \<Rightarrow>
             Inr (Fixed (cur[idx := Some buffered]) ''Applied buffer(0) to fix self-intersection''))
      else if upper lib ftype = ''MAKE_VALID'' then
        (case make_valid lib geom of
           Inl ex \<Rightarrow> Inl ex
         | Inr valid_geom \<Rightarrow>
             Inr (Fixed (cur[idx := Some valid_geom]) ''Applied make_valid() to repair geometry''))
      else if upper lib ftype = ''CLOSE'' then close_fix lib cur idx geom
      else if upper lib ftype = ''REVERSE'' then reverse_fix lib cur idx geom
      else if upper lib ftype = ''DENSIFY'' then densify_fix lib cur idx geom params
      else if upper lib ftype = ''OTHER'' then
        Inr (Fixed cur ''Marked as reviewed (no auto-fix available)'')
      else Inr (Return \<lparr>success = False, message = ''Unknown fix type: '' @ ftype\<rparr>))"

definition none_has_no_wkt :: exn where
  "none_has_no_wkt =
     AttributeError ([CHR 0x27] @ ''NoneType'' @ [CHR 0x27] @ '' object has no attribute ''
                     @ [CHR 0x27] @ ''wkt'' @ [CHR 0x27])"

text \<open>
  The body of the \<open>try\<close>. \<open>Inl\<close> is an exception on its way to the handler; \<open>Inr\<close> is what
  the body returns (None when it falls off its end) with the engine it leaves. In every
  branch of the source the calls that can raise stand before the branch's assignment, so
  an exception leaves the engine as it was on entry.
\<close>

definition apply_fix_body :: "library \<Rightarrow> engine \<Rightarrow> string \<Rightarrow> string \<Rightarrow>
    (string \<times> pyval) list option \<Rightarrow> exn + (response option \<times> engine)" where
  "apply_fix_body lib e eid ftype params =
     (let parts = split_on (CHR ''-'') eid in
      case find_index lib parts of
        Inl ex \<Rightarrow> Inl ex
      | Inr idx \<Rightarrow>
          if idx = - 1 \<or> idx \<ge> int (length (current_geometries e)) then
            Inr (Some \<lparr>success = False, message = ''Invalid geometry index: '' @ str_int idx\<rparr>, e)
          else
            (case current_geometries e ! nat idx of
               None \<Rightarrow> Inl none_has_no_wkt
             | Some geom \<Rightarrow>
                 (let original_wkt = wkt lib geom in
                  case dispatch lib (current_geometries e) (nat idx) geom ftype params of
                    Inl ex \<Rightarrow> Inl ex
                  | Inr (Return r) \<Rightarrow> Inr (Some r, e)
                  | Inr (Fixed cur' fix_result) \<Rightarrow>
                      (let e' = e\<lparr>current_geometries := cur'\<rparr> in
                       if fix_result \<noteq> [] then
                         Inr (Some \<lparr>success = True, message = fix_result\<rparr>,
                              e'\<lparr>applied_fixes := applied_fixes e' @
                                 [\<lparr>error_id = eid, fix_type = ftype, original = original_wkt,
                                   result = fix_result, timestamp = ''now''\<rparr>]\<rparr>)
                       else Inr (None, e')))))"

definition apply_fix :: "library \<Rightarrow> engine \<Rightarrow> string \<Rightarrow> string \<Rightarrow>
    (string \<times> pyval) list option \<Rightarrow> response option \<times> engine" where
  "apply_fix lib e eid ftype params =
     (case apply_fix_body lib e eid ftype params of
        Inl ex \<Rightarrow> (Some \<lparr>success = False, message = str_exn ex\<rparr>, e)
      | Inr r \<Rightarrow> r)"

subsection \<open>export_fixed_wkt\<close>

definition valid_geoms :: "engine \<Rightarrow> geometry list" where
  "valid_geoms e =
     List.map_filter (\<lambda>g. case g of None \<Rightarrow> None | Some x \<Rightarrow> if is_empty x then None else Some x)
       (current_geometries e)"

text \<open>The constructor of the collection may raise; the method has no handler for it.\<close>

definition export_fixed_wkt :: "library \<Rightarrow> engine \<Rightarrow> exn + string" where
  "export_fixed_wkt lib e =
     (if valid_geoms e = [] then Inr []
      else if length (valid_geoms e) = 1 then Inr (wkt lib (hd (valid_geoms e)))
      else
        (case new_MultiLineString lib (valid_geoms e) of
           Inl ex \<Rightarrow> Inl ex
         | Inr collection \<Rightarrow> Inr (wkt lib collection)))"

section \<open>The diagnostics (geometry_qa.py)\<close>

text \<open>An entry of \<open>lines_data\<close>: the keys \<open>id\<close>, \<open>line_no\<close> and \<open>geom\<close>.\<close>

record item =
  item_id :: nat
  line_no :: nat
  item_geom :: "geometry option"

text \<open>An entry of \<open>endpoints\<close>: the keys \<open>pt\<close>, \<open>line_idx\<close>, \<open>line_no\<close>, \<open>loc\<close> and \<open>coord\<close>.\<close>

record endpoint =
  ep_pt :: geometry
  ep_line_idx :: nat
  ep_line_no :: nat
  ep_loc :: string
  ep_coord :: coord

text \<open>
  An entry of \<open>errors\<close>: the keys \<open>id\<close>, \<open>type\<close>, \<open>geometry_index\<close>, \<open>line_number\<close>,
  \<open>location\<close>, \<open>severity\<close>, \<open>description\<close>, \<open>wkt\<close> and, for a dangle, \<open>error_point\<close>.
\<close>

record finding =
  finding_id :: string
  finding_type :: string
  geometry_index :: nat
  line_number :: nat
  location :: string
  severity :: string
  description :: string
  finding_wkt :: string
  error_point :: "coord option"

definition TOLERANCE :: real where
  "TOLERANCE = 0.5"

definition MIN_LINE_LENGTH :: real where
  "MIN_LINE_LENGTH = 2.0"

subsection \<open>find_dangles\<close>

text \<open>The two endpoints of a line part; a part with fewer than two coordinates has none.\<close>

definition part_endpoints :: "nat \<Rightarrow> nat \<Rightarrow> coord list \<Rightarrow> endpoint list" where
  "part_endpoints idx lno coords =
     (if length coords < 2 then []
      else [\<lparr>ep_pt = Point [hd coords], ep_line_idx = idx, ep_line_no = lno,
              ep_loc = ''start'', ep_coord = hd coords\<rparr>,
            \<lparr>ep_pt = Point [last coords], ep_line_idx = idx, ep_line_no = lno,
              ep_loc = ''end'', ep_coord = last coords\<rparr>])"

text \<open>The line parts of a geometry: \<open>geoms_list\<close>, as coordinate lists.\<close>

fun geoms_list :: "geometry \<Rightarrow> coord list list" where
  "geoms_list (LineString coords) = [coords]"
| "geoms_list (MultiLineString parts) = parts"
| "geoms_list _ = []"

definition item_endpoints :: "item \<Rightarrow> endpoint list" where
  "item_endpoints it =
     (case item_geom it of
        None \<Rightarrow> []
      | Some g \<Rightarrow>
          if is_empty g then []
          else concat (map (part_endpoints (item_id it) (line_no it)) (geoms_list g)))"

definition collect_endpoints :: "item list \<Rightarrow> endpoint list" where
  "collect_endpoints lines_data = concat (map item_endpoints lines_data)"

text \<open>
  The inner loop: the endpoint is connected as soon as one other entry (another \<open>id\<close>, a
  geometry that is neither None nor empty) lies within the tolerance of it.
\<close>

fun is_connected :: "library \<Rightarrow> endpoint \<Rightarrow> real \<Rightarrow> item list \<Rightarrow> exn + bool" where
  "is_connected lib ep tolerance [] = Inr False"
| "is_connected lib ep tolerance (other_item # rest) =
     (if ep_line_idx ep = item_id other_item then is_connected lib ep tolerance rest
      else
        (case item_geom other_item of
           None \<Rightarrow> is_connected lib ep tolerance rest
         | Some other_geom \<Rightarrow>
             if is_empty other_geom then is_connected lib ep tolerance rest
             else
               (case distance lib (ep_pt ep) (Some other_geom) of
                  Inl ex \<Rightarrow> Inl ex
                | Inr d \<Rightarrow>
                    if fle d (Float tolerance) then Inr True
                    else is_connected lib ep tolerance rest)))"

text \<open>
  The ring test reads \<open>lines_data[my_idx]\<close>, the entry at the position of the endpoint's
  \<open>line_idx\<close>: only a LineString that \<open>is_ring\<close> counts.
\<close>

definition owner_is_ring :: "library \<Rightarrow> item list \<Rightarrow> nat \<Rightarrow> exn + bool" where
  "owner_is_ring lib lines_data my_idx =
     (if my_idx < length lines_data then
        (case item_geom (lines_data ! my_idx) of
           None \<Rightarrow> Inl (AttributeError ''geom_type'')
         | Some my_geom \<Rightarrow>
             (case my_geom of
                LineString _ \<Rightarrow> Inr (is_ring lib my_geom)
              | _ \<Rightarrow> Inr False))
      else Inl (IndexError ''list index out of range''))"

definition dangle_finding :: "library \<Rightarrow> real \<Rightarrow> endpoint \<Rightarrow> finding" where
  "dangle_finding lib tolerance ep =
     \<lparr>finding_id = ''dangle-'' @ str_nat (ep_line_no ep) @ ''-'' @ ep_loc ep,
      finding_type = ''Dangle (Unconnected Endpoint)'',
      geometry_index = ep_line_idx ep,
      line_number = ep_line_no ep,
      location = format_fixed lib 6 (Float (fst (ep_coord ep))) @ '', '' @
                 format_fixed lib 6 (Float (snd (ep_coord ep))),
      severity = ''HIGH'',
      description = ''Dangle at '' @ ep_loc ep @ '' (Line '' @ str_nat (ep_line_no ep) @
                    ''). No snap within '' @ str_val lib (Num (Float tolerance)) @ ''m.'',
      finding_wkt = wkt lib (ep_pt ep),
      error_point = Some (ep_coord ep)\<rparr>"

text \<open>One pass of the outer loop: the findings the endpoint adds to \<open>errors\<close>.\<close>

definition check_endpoint :: "library \<Rightarrow> item list \<Rightarrow> real \<Rightarrow> endpoint \<Rightarrow> exn + finding list" where
  "check_endpoint lib lines_data tolerance ep =
     (case is_connected lib ep tolerance lines_data of
        Inl ex \<Rightarrow> Inl ex
      | Inr reached \<Rightarrow>
          if reached then Inr []
          else
            (case owner_is_ring lib lines_data (ep_line_idx ep) of
               Inl ex \<Rightarrow> Inl ex
             | Inr ring \<Rightarrow> if ring then Inr [] else Inr [dangle_finding lib tolerance ep]))"

definition find_dangles :: "library \<Rightarrow> item list \<Rightarrow> real \<Rightarrow> exn + finding list" where
  "find_dangles lib lines_data tolerance =
     (case map_exn (check_endpoint lib lines_data tolerance) (collect_endpoints lines_data) of
        Inl ex \<Rightarrow> Inl ex
      | Inr errors \<Rightarrow> Inr (concat errors))"

subsection \<open>find_short_lines\<close>

definition short_finding :: "library \<Rightarrow> item \<Rightarrow> geometry \<Rightarrow> finding" where
  "short_finding lib it g =
     \<lparr>finding_id = ''short-'' @ str_nat (line_no it),
      finding_type = ''Short Line Segment'',
      geometry_index = item_id it,
      line_number = line_no it,
      location = format_fixed lib 6 (Float (fst (centroid lib g))) @ '', '' @
                 format_fixed lib 6 (Float (snd (centroid lib g))),
      severity = ''LOW'',
      description = ''Line '' @ str_nat (line_no it) @ '' is too short ('' @
                    format_fixed lib 4 (Float (geom_length lib g)) @ ''m).'',
      finding_wkt = wkt lib g,
      error_point = None\<rparr>"

definition find_short_lines :: "library \<Rightarrow> item list \<Rightarrow> real \<Rightarrow> finding list" where
  "find_short_lines lib lines_data min_len =
     concat (map (\<lambda>it. case item_geom it of
                          None \<Rightarrow> []
                        | Some g \<Rightarrow>
                            if is_empty g then []
                            else if geom_length lib g < min_len then [short_finding lib it g]
                            else [])
                 lines_data)"

subsection \<open>run_geometry_qa\<close>

text \<open>
  The loading loop over \<open>enumerate(raw_lines)\<close>: \<open>i\<close> is the index of the line,
  \<open>current_statement_start\<close> the 1-based number of the first line of the statement in
  \<open>buf\<close>. An entry gets the number of entries before it as its \<open>id\<close>; a statement that
  fails to parse, or parses to an empty geometry, adds nothing.
\<close>

fun qa_load_loop :: "library \<Rightarrow> string list \<Rightarrow> nat \<Rightarrow> string \<Rightarrow> nat \<Rightarrow> item list \<Rightarrow> item list" where
  "qa_load_loop lib [] i buf current_statement_start lines_data = lines_data"
| "qa_load_loop lib (line_str # rest) i buf current_statement_start lines_data =
     (let stripped = strip lib line_str in
      if stripped = [] then qa_load_loop lib rest (Suc i) buf current_statement_start lines_data
      else
        let start = (if buf = [] then i + 1 else current_statement_start);
            buf' = buf @ stripped @ '' ''
        in
        if endswith stripped '')'' then
          (case wkt_loads lib (last (split_on (CHR '';'') buf')) of
             Inr g \<Rightarrow>
               if \<not> is_empty g then
                 qa_load_loop lib rest (Suc i) [] start
                   (lines_data @ [\<lparr>item_id = length lines_data, line_no = start, item_geom = Some g\<rparr>])
               else qa_load_loop lib rest (Suc i) [] start lines_data
           | Inl ex \<Rightarrow> qa_load_loop lib rest (Suc i) [] start lines_data)
        else qa_load_loop lib rest (Suc i) buf' start lines_data)"

definition qa_load :: "library \<Rightarrow> string \<Rightarrow> item list" where
  "qa_load lib content = qa_load_loop lib (splitlines lib content) 0 [] 0 []"

definition invalid_finding :: "library \<Rightarrow> item \<Rightarrow> geometry \<Rightarrow> finding" where
  "invalid_finding lib it g =
     \<lparr>finding_id = ''invalid-'' @ str_nat (line_no it),
      finding_type = ''Invalid Geometry'',
      geometry_index = item_id it,
      line_number = line_no it,
      location = ''N/A'',
      severity = ''CRITICAL'',
      description = ''Line '' @ str_nat (line_no it) @ '': '' @ explain_validity lib g,
      finding_wkt = wkt lib g,
      error_point = None\<rparr>"

fun validity_checks :: "library \<Rightarrow> item list \<Rightarrow> exn + finding list" where
  "validity_checks lib [] = Inr []"
| "validity_checks lib (it # rest) =
     (case item_geom it of
        None \<Rightarrow> Inl (AttributeError ''is_valid'')
      | Some g \<Rightarrow>
          (case validity_checks lib rest of
             Inl ex \<Rightarrow> Inl ex
           | Inr errors \<Rightarrow>
               Inr (if \<not> is_valid lib g then invalid_finding lib it g # errors else errors)))"

text \<open>
  The \<open>errors\<close> of the returned dictionary: the findings of the three checks in order
  (validity, dangles, short lines), or the single entry of the two other returns. The
  plotting between the checks and the return is not modelled.
\<close>

datatype qa_errors =
    Findings "finding list"
  | InsufficientData
  | ProcessingError string

definition run_geometry_qa :: "library \<Rightarrow> string \<Rightarrow> qa_errors" where
  "run_geometry_qa lib content =
     (let lines_data = qa_load lib content in
      if length lines_data < 1 then InsufficientData
      else
        (case validity_checks lib lines_data of
           Inl ex \<Rightarrow> ProcessingError (str_exn ex)
         | Inr invalid \<Rightarrow>
             (case find_dangles lib lines_data TOLERANCE of
                Inl ex \<Rightarrow> ProcessingError (str_exn ex)
              | Inr dangles \<Rightarrow>
                  Findings (invalid @ dangles @ find_short_lines lib lines_data MIN_LINE_LENGTH))))"

section \<open>A library instance for the scenarios\<close>

text \<open>
  A small instance of the library, to run the model on concrete data: points and line
  strings of the plane with natural-number coordinates in their text form. Its distance
  is the Euclidean distance from a point to a point or to a line string, and the distance
  to a missing geometry is NaN; snapping moves a point onto the nearest vertex strictly
  within the tolerance. It takes every geometry for simple and valid, prints a coordinate
  by its integer part, computes with the reals for the floats, treats a non-ASCII text
  as holding no digits, capitals or white space of its own, and raises LibraryError for
  what it does not cover.
\<close>

definition uncovered :: exn where
  "uncovered = LibraryError ''not covered by this instance''"

definition sq_dist :: "coord \<Rightarrow> coord \<Rightarrow> real" where
  "sq_dist p q = (fst p - fst q)\<^sup>2 + (snd p - snd q)\<^sup>2"

definition nearest_on_segment :: "coord \<Rightarrow> coord \<Rightarrow> coord \<Rightarrow> coord" where
  "nearest_on_segment p a b =
     (let dx = fst b - fst a; dy = snd b - snd a; l2 = dx * dx + dy * dy in
      if l2 = 0 then a
      else
        let t = max 0 (min 1 (((fst p - fst a) * dx + (snd p - snd a) * dy) / l2)) in
        (fst a + t * dx, snd a + t * dy))"

fun sq_dist_path :: "coord \<Rightarrow> coord list \<Rightarrow> real" where
  "sq_dist_path p [] = 0"
| "sq_dist_path p [a] = sq_dist p a"
| "sq_dist_path p [a, b] = sq_dist p (nearest_on_segment p a b)"
| "sq_dist_path p (a # b # rest) =
     min (sq_dist p (nearest_on_segment p a b)) (sq_dist_path p (b # rest))"

definition planar_distance :: "geometry \<Rightarrow> geometry option \<Rightarrow> exn + pyfloat" where
  "planar_distance g other =
     (case other of
        None \<Rightarrow> Inr NaN
      | Some h \<Rightarrow>
          (case g of
             Point [p] \<Rightarrow>
               (case h of
                  Point [q] \<Rightarrow> Inr (Float (sqrt (sq_dist p q)))
                | LineString cs \<Rightarrow> if cs = [] then Inr NaN else Inr (Float (sqrt (sq_dist_path p cs)))
                | _ \<Rightarrow> Inl uncovered)
           | _ \<Rightarrow> Inl uncovered))"

fun nearest_vertex :: "coord \<Rightarrow> real \<Rightarrow> coord list \<Rightarrow> coord option \<Rightarrow> coord option" where
  "nearest_vertex p bound [] best = best"
| "nearest_vertex p bound (v # vs) best =
     (if sq_dist p v < bound then nearest_vertex p (sq_dist p v) vs (Some v)
      else nearest_vertex p bound vs best)"

definition planar_snap :: "geometry \<Rightarrow> geometry \<Rightarrow> pyval \<Rightarrow> exn + geometry" where
  "planar_snap g target tolerance =
     (case (g, tolerance) of
        (Point [p], Num (Float t)) \<Rightarrow>
          (case target of
             Point vs \<Rightarrow>
               Inr (case nearest_vertex p (t * \<bar>t\<bar>) vs None of None \<Rightarrow> g | Some v \<Rightarrow> Point [v])
           | LineString vs \<Rightarrow>
               Inr (case nearest_vertex p (t * \<bar>t\<bar>) vs None of None \<Rightarrow> g | Some v \<Rightarrow> Point [v])
           | _ \<Rightarrow> Inl uncovered)
      | _ \<Rightarrow> Inl uncovered)"

fun path_length :: "coord list \<Rightarrow> real" where
  "path_length (a # b # rest) = sqrt (sq_dist a b) + path_length (b # rest)"
| "path_length _ = 0"

definition planar_length :: "geometry \<Rightarrow> real" where
  "planar_length g = (case g of LineString cs \<Rightarrow> path_length cs | _ \<Rightarrow> 0)"

definition planar_centroid :: "geometry \<Rightarrow> coord" where
  "planar_centroid g =
     (case g of
        Point [p] \<Rightarrow> p
      | LineString [a, b] \<Rightarrow> ((fst a + fst b) / 2, (snd a + snd b) / 2)
      | _ \<Rightarrow> (0, 0))"

fun join_with :: "string \<Rightarrow> string list \<Rightarrow> string" where
  "join_with sep [] = []"
| "join_with sep [x] = x"
| "join_with sep (x # y # ys) = x @ sep @ join_with sep (y # ys)"

definition coord_text :: "coord \<Rightarrow> string" where
  "coord_text c = str_int \<lfloor>fst c\<rfloor> @ '' '' @ str_int \<lfloor>snd c\<rfloor>"

definition coords_text :: "coord list \<Rightarrow> string" where
  "coords_text cs = ''('' @ join_with '', '' (map coord_text cs) @ '')''"

definition planar_wkt :: "geometry \<Rightarrow> string" where
  "planar_wkt g =
     (case g of
        Point cs \<Rightarrow> ''POINT '' @ coords_text cs
      | LineString cs \<Rightarrow> ''LINESTRING '' @ coords_text cs
      | MultiLineString ps \<Rightarrow> ''MULTILINESTRING ('' @ join_with '', '' (map coords_text ps) @ '')''
      | _ \<Rightarrow> ascii_upper (geom_type g))"

text \<open>The parser: \<open>POINT(x y)\<close> and \<open>LINESTRING(x y, ...)\<close> with natural-number coordinates.\<close>

definition parse_nat :: "string \<Rightarrow> real option" where
  "parse_nat t = (if ascii_isdigit t then Some (real (int_of_digits t)) else None)"

definition parse_coord :: "string \<Rightarrow> coord option" where
  "parse_coord t =
     (case filter (\<lambda>w. w \<noteq> []) (split_on (CHR '' '') t) of
        [a, b] \<Rightarrow>
          (case (parse_nat a, parse_nat b) of
             (Some x, Some y) \<Rightarrow> Some (x, y)
           | _ \<Rightarrow> None)
      | _ \<Rightarrow> None)"

definition parse_coords :: "string \<Rightarrow> coord list option" where
  "parse_coords t = those (map parse_coord (split_on (CHR '','') t))"

definition parse_error :: exn where
  "parse_error = LibraryError ''ParseException''"

definition planar_loads :: "string \<Rightarrow> exn + geometry" where
  "planar_loads t =
     (let s = ascii_strip t in
      if take 11 s = ''LINESTRING('' \<and> endswith s '')'' then
        (case parse_coords (butlast (drop 11 s)) of
           Some cs \<Rightarrow> if 2 \<le> length cs then Inr (LineString cs) else Inl parse_error
         | None \<Rightarrow> Inl parse_error)
      else if take 6 s = ''POINT('' \<and> endswith s '')'' then
        (case parse_coords (butlast (drop 6 s)) of
           Some [c] \<Rightarrow> Inr (Point [c])
         | _ \<Rightarrow> Inl parse_error)
      else Inl parse_error)"

definition planar_LineString :: "coord list \<Rightarrow> exn + geometry" where
  "planar_LineString cs =
     (if length cs = 1 then Inl (LibraryError ''a line string needs two coordinates'')
      else Inr (LineString cs))"

text \<open>
  The exception of the collection constructor names the class of the first member that
  is not a line; the exception of \<open>int\<close> quotes the text it rejects.
\<close>

definition quoted :: "string \<Rightarrow> string" where
  "quoted s = [CHR 0x27] @ s @ [CHR 0x27]"

definition planar_collection_error :: "geometry list \<Rightarrow> exn" where
  "planar_collection_error gs =
     (case filter (\<lambda>g. \<not> is_line g) gs of
        [] \<Rightarrow> uncovered
      | g # _ \<Rightarrow> TypeError (quoted (geom_type g) @ '' object is not iterable''))"

definition planar_int :: "string \<Rightarrow> exn + nat" where
  "planar_int p = Inl (ValueError (''invalid literal for int() with base 10: '' @ quoted p))"

text \<open>Division and multiplication of the reals, for float division and multiplication.\<close>

fun planar_fdiv :: "real \<Rightarrow> pyval \<Rightarrow> exn + pyfloat" where
  "planar_fdiv a (Num (Float b)) =
     (if b = 0 then Inl (ZeroDivisionError ''float division by zero'') else Inr (Float (a / b)))"
| "planar_fdiv a (Num PosInf) = Inr (Float 0)"
| "planar_fdiv a (Num NegInf) = Inr (Float 0)"
| "planar_fdiv a (Num NaN) = Inr NaN"
| "planar_fdiv a NonNum = Inl (TypeError ''unsupported operand type(s) for /'')"

fun planar_imul :: "nat \<Rightarrow> pyval \<Rightarrow> exn + pyfloat" where
  "planar_imul i (Num (Float b)) = Inr (Float (real i * b))"
| "planar_imul i (Num PosInf) = Inr (if i = 0 then NaN else PosInf)"
| "planar_imul i (Num NegInf) = Inr (if i = 0 then NaN else NegInf)"
| "planar_imul i (Num NaN) = Inr NaN"
| "planar_imul i NonNum = Inl (TypeError ''unsupported operand type(s) for *'')"

definition planar_format :: "nat \<Rightarrow> pyfloat \<Rightarrow> string" where
  "planar_format n x =
     (case x of
        Float r \<Rightarrow> str_int \<lfloor>r\<rfloor> @ ''.'' @ replicate n (CHR ''0'')
      | PosInf \<Rightarrow> ''inf''
      | NegInf \<Rightarrow> ''-inf''
      | NaN \<Rightarrow> ''nan'')"

definition planar_str :: "pyval \<Rightarrow> string" where
  "planar_str v =
     (case v of
        Num (Float r) \<Rightarrow> str_int \<lfloor>r\<rfloor> @ ''.'' @ [digit_chars ! nat (\<lfloor>10 * r\<rfloor> mod 10)]
      | Num PosInf \<Rightarrow> ''inf''
      | Num NegInf \<Rightarrow> ''-inf''
      | Num NaN \<Rightarrow> ''nan''
      | NonNum \<Rightarrow> ''None'')"

definition planar :: library where
  "planar =
     \<lparr>wkt_loads = planar_loads,
      wkt = planar_wkt,
      distance = planar_distance,
      snap = planar_snap,
      simplify = (\<lambda>g t. Inl uncovered),
      buffer = (\<lambda>g. Inl uncovered),
      make_valid = (\<lambda>g. Inl uncovered),
      interpolate = (\<lambda>g d. Inl uncovered),
      geom_length = planar_length,
      centroid = planar_centroid,
      is_simple = (\<lambda>g. True),
      is_valid = (\<lambda>g. True),
      explain_validity = (\<lambda>g. ''Valid Geometry''),
      new_LineString = planar_LineString,
      new_LinearRing = (\<lambda>cs. Inl uncovered),
      new_Polygon = (\<lambda>ext ints. Inl uncovered),
      collection_error = planar_collection_error,
      format_fixed = planar_format,
      str_val = planar_str,
      fdiv = planar_fdiv,
      imul = planar_imul,
      unicode_isdigit = (\<lambda>p. False),
      unicode_int = planar_int,
      unicode_upper = (\<lambda>s. s),
      unicode_strip = ascii_strip,
      unicode_splitlines = ascii_splitlines\<rparr>"

text \<open>The two statements of the connectivity scenario, and the data they load to.\<close>

definition line_a :: geometry where
  "line_a = LineString [(0, 0), (10, 0)]"

definition line_b :: geometry where
  "line_b = LineString [(10, 0), (10, 10)]"

definition two_lines_text :: string where
  "two_lines_text = ''LINESTRING(0 0, 10 0)'' @ [CHR 0x0A] @ ''LINESTRING(10 0, 10 10)''"

definition two_lines :: engine where
  "two_lines =
     \<lparr>original_geometries = [Some line_a, Some line_b],
      current_geometries = [Some line_a, Some line_b],
      applied_fixes = []\<rparr>"

definition two_lines_data :: "item list" where
  "two_lines_data =
     [\<lparr>item_id = 0, line_no = 1, item_geom = Some line_a\<rparr>,
      \<lparr>item_id = 1, line_no = 2, item_geom = Some line_b\<rparr>]"

text \<open>
  Data for the SNAP strategy: a point one unit from the second line, and a point exactly
  half a unit (the default tolerance) from a line.
\<close>

definition point_near_b :: engine where
  "point_near_b =
     \<lparr>original_geometries = [Some (Point [(9, 0)]), Some line_b],
      current_geometries = [Some (Point [(9, 0)]), Some line_b],
      applied_fixes = []\<rparr>"

definition half_line :: geometry where
  "half_line = LineString [(1 / 2, 0), (3, 0)]"

definition point_at_tolerance :: engine where
  "point_at_tolerance =
     \<lparr>original_geometries = [Some (Point [(0, 0)]), Some half_line],
      current_geometries = [Some (Point [(0, 0)]), Some half_line],
      applied_fixes = []\<rparr>"

text \<open>A multi-part line whose one part is closed: its first coordinate is its last.\<close>

definition closed_part :: "coord list" where
  "closed_part = [(0, 0), (4, 0), (4, 3), (0, 0)]"

definition closed_part_data :: "item list" where
  "closed_part_data = [\<lparr>item_id = 0, line_no = 1, item_geom = Some (MultiLineString [closed_part])\<rparr>]"

section \<open>The dangle check, stated\<close>

text \<open>
  What the dangle check is to decide for an endpoint, said without the loops: some other
  entry (another \<open>id\<close>, a geometry that is neither None nor empty) is at a distance of at
  most the tolerance from the endpoint; and the entry at the endpoint's index is a
  LineString that is a ring.
\<close>

definition within_tolerance :: "library \<Rightarrow> item list \<Rightarrow> real \<Rightarrow> endpoint \<Rightarrow> bool" where
  "within_tolerance lib lines_data tolerance ep =
     list_ex (\<lambda>other. item_id other \<noteq> ep_line_idx ep \<and>
                (case item_geom other of
                   None \<Rightarrow> False
                 | Some g \<Rightarrow>
                     \<not> is_empty g \<and>
                     (case distance lib (ep_pt ep) (Some g) of
                        Inl ex \<Rightarrow> False
                      | Inr d \<Rightarrow> fle d (Float tolerance))))
       lines_data"

definition owner_ring :: "library \<Rightarrow> item list \<Rightarrow> endpoint \<Rightarrow> bool" where
  "owner_ring lib lines_data ep =
     (case item_geom (lines_data ! ep_line_idx ep) of
        Some (LineString coords) \<Rightarrow> is_ring lib (LineString coords)
      | _ \<Rightarrow> False)"

text \<open>The two dangles of the connectivity scenario.\<close>

definition dangle_a_start :: finding where
  "dangle_a_start =
     dangle_finding planar TOLERANCE
       \<lparr>ep_pt = Point [(0, 0)], ep_line_idx = 0, ep_line_no = 1, ep_loc = ''start'', ep_coord = (0, 0)\<rparr>"

definition dangle_b_end :: finding where
  "dangle_b_end =
     dangle_finding planar TOLERANCE
       \<lparr>ep_pt = Point [(10, 10)], ep_line_idx = 1, ep_line_no = 2, ep_loc = ''end'', ep_coord = (10, 10)\<rparr>"

text \<open>
  The superscript two, U+00B2, in UTF-8: \<open>str.isdigit\<close> holds for it and \<open>int\<close> rejects it.
  The instance, told so.
\<close>

definition superscript_two :: string where
  "superscript_two = [CHR 0xC2, CHR 0xB2]"

definition planar_sup :: library where
  "planar_sup = planar\<lparr>unicode_isdigit := (\<lambda>p. p = superscript_two)\<rparr>"

text \<open>A run of calls of \<open>apply_fix\<close>, each with its finding id, fix type and parameters.\<close>

fun apply_fixes :: "library \<Rightarrow> engine \<Rightarrow> (string \<times> string \<times> (string \<times> pyval) list option) list \<Rightarrow> engine" where
  "apply_fixes lib e [] = e"
| "apply_fixes lib e (c # calls) =
     apply_fixes lib (snd (apply_fix lib e (fst c) (fst (snd c)) (snd (snd c)))) calls"

section \<open>What a call of apply_fix can do\<close>

lemma find_index_range: "find_index lib ps = Inr i \<Longrightarrow> i = - 1 \<or> 0 \<le> i"
  by (induction ps) (auto split: if_splits sum.splits)

lemma snap_fix_Fixed:
  "snap_fix lib cur idx geom params = Inr (Fixed cur' fr) \<Longrightarrow> fr \<noteq> [] \<and> (\<exists>v. cur' = cur[idx := v])"
  by (auto simp: snap_fix_def no_snap_def Let_def split: sum.splits option.splits if_splits prod.splits)

lemma snap_fix_Return:
  "snap_fix lib cur idx geom params = Inr (Return r) \<Longrightarrow> \<not> success r"
  by (auto simp: snap_fix_def no_snap_def Let_def split: sum.splits option.splits if_splits prod.splits)

lemma simplify_fix_Fixed:
  "simplify_fix lib cur idx geom params = Inr (Fixed cur' fr) \<Longrightarrow> fr \<noteq> [] \<and> (\<exists>v. cur' = cur[idx := v])"
  by (auto simp: simplify_fix_def Let_def split: sum.splits)

lemma simplify_fix_Return: "simplify_fix lib cur idx geom params \<noteq> Inr (Return r)"
  by (auto simp: simplify_fix_def Let_def split: sum.splits)

lemma close_fix_Fixed:
  "close_fix lib cur idx geom = Inr (Fixed cur' fr) \<Longrightarrow>
     fr \<noteq> [] \<and> (cur' = cur \<or> (\<exists>v. cur' = cur[idx := v]))"
  by (auto simp: close_fix_def split: sum.splits geometry.splits if_splits)

lemma close_fix_Return: "close_fix lib cur idx geom \<noteq> Inr (Return r)"
  by (auto simp: close_fix_def split: sum.splits geometry.splits if_splits)

lemma reverse_fix_Fixed:
  "reverse_fix lib cur idx geom = Inr (Fixed cur' fr) \<Longrightarrow>
     fr \<noteq> [] \<and> (cur' = cur \<or> (\<exists>v. cur' = cur[idx := v]))"
  by (auto simp: reverse_fix_def split: sum.splits geometry.splits if_splits)

lemma reverse_fix_Return: "reverse_fix lib cur idx geom \<noteq> Inr (Return r)"
  by (auto simp: reverse_fix_def split: sum.splits geometry.splits if_splits)

lemma densify_fix_Fixed:
  "densify_fix lib cur idx geom params = Inr (Fixed cur' fr) \<Longrightarrow>
     fr \<noteq> [] \<and> (cur' = cur \<or> (\<exists>v. cur' = cur[idx := v]))"
  by (auto simp: densify_fix_def Let_def split: sum.splits geometry.splits if_splits)

lemma densify_fix_Return: "densify_fix lib cur idx geom params \<noteq> Inr (Return r)"
  by (auto simp: densify_fix_def Let_def split: sum.splits geometry.splits if_splits)

lemma dispatch_Fixed:
  "dispatch lib cur idx geom ftype params = Inr (Fixed cur' fr) \<Longrightarrow>
     fr \<noteq> [] \<and> (cur' = cur \<or> (\<exists>v. cur' = cur[idx := v]))"
  unfolding dispatch_def
  by (auto split: if_splits sum.splits
      dest: snap_fix_Fixed simplify_fix_Fixed close_fix_Fixed reverse_fix_Fixed densify_fix_Fixed)

lemma dispatch_Return:
  "dispatch lib cur idx geom ftype params = Inr (Return r) \<Longrightarrow> \<not> success r"
  unfolding dispatch_def
  by (auto split: if_splits sum.splits
      simp: simplify_fix_Return close_fix_Return reverse_fix_Return densify_fix_Return
      dest: snap_fix_Return)

text \<open>
  A call either fails and leaves the engine as it was, or succeeds: then the resolved
  index is in bounds, its slot held a geometry, the list is the old one or the old one
  with that slot replaced, and one record is appended to the log.
\<close>

lemma apply_fix_char:
  assumes "apply_fix lib e eid ftype params = (r, e')"
  shows "(\<exists>m. r = Some \<lparr>success = False, message = m\<rparr> \<and> e' = e) \<or>
         (\<exists>fr cur' geom idx.
            r = Some \<lparr>success = True, message = fr\<rparr> \<and>
            find_index lib (split_on (CHR ''-'') eid) = Inr (int idx) \<and>
            idx < length (current_geometries e) \<and>
            current_geometries e ! idx = Some geom \<and>
            (cur' = current_geometries e \<or> (\<exists>v. cur' = (current_geometries e)[idx := v])) \<and>
            e' = e\<lparr>current_geometries := cur',
                   applied_fixes := applied_fixes e @
                     [\<lparr>error_id = eid, fix_type = ftype, original = wkt lib geom,
                       result = fr, timestamp = ''now''\<rparr>]\<rparr>)"
proof (cases "apply_fix_body lib e eid ftype params")
  case (Inl ex)
  with assms show ?thesis by (auto simp: apply_fix_def)
next
  case (Inr p)
  with assms have p: "p = (r, e')" by (simp add: apply_fix_def)
  from Inr obtain i where fi: "find_index lib (split_on (CHR ''-'') eid) = Inr i"
    by (auto simp: apply_fix_body_def Let_def split: sum.splits)
  show ?thesis
  proof (cases "i = - 1 \<or> i \<ge> int (length (current_geometries e))")
    case True
    with Inr p fi show ?thesis by (auto simp: apply_fix_body_def Let_def)
  next
    case False
    with find_index_range[OF fi] have "0 \<le> i" by auto
    then obtain idx where idx: "i = int idx" using nonneg_int_cases by blast
    with False have inb: "idx < length (current_geometries e)" by auto
    from Inr p False fi idx obtain geom where g: "current_geometries e ! idx = Some geom"
      by (auto simp: apply_fix_body_def Let_def split: option.splits)
    show ?thesis
    proof (cases "dispatch lib (current_geometries e) idx geom ftype params")
      case (Inl ex)
      with Inr p False g fi idx show ?thesis by (auto simp: apply_fix_body_def Let_def)
    next
      case d: (Inr out)
      show ?thesis
      proof (cases out)
        case (Return resp)
        with d have "\<not> success resp" by (auto dest: dispatch_Return)
        then have "resp = \<lparr>success = False, message = message resp\<rparr>" by simp
        moreover from Inr p False g d Return fi idx have "r = Some resp" "e' = e"
          by (auto simp: apply_fix_body_def Let_def)
        ultimately show ?thesis by blast
      next
        case (Fixed cur' fr)
        with d dispatch_Fixed have fr: "fr \<noteq> []"
          and c: "cur' = current_geometries e \<or> (\<exists>v. cur' = (current_geometries e)[idx := v])"
          by blast+
        from Inr p False g d Fixed fr fi idx
        have "r = Some \<lparr>success = True, message = fr\<rparr>"
          "e' = e\<lparr>current_geometries := cur',
                   applied_fixes := applied_fixes e @
                     [\<lparr>error_id = eid, fix_type = ftype, original = wkt lib geom,
                       result = fr, timestamp = ''now''\<rparr>]\<rparr>"
          by (auto simp: apply_fix_body_def Let_def)
        with fi idx inb g c show ?thesis by blast
      qed
    qed
  qed
qed

section \<open>Runs of the model on the scenario data\<close>

lemma upper_DELETE: "upper lib ''DELETE'' = ''DELETE''"
  by (simp add: upper_def is_ascii_def ascii_upper_def upper_char_def)

lemma find_index_0: "find_index lib (split_on (CHR ''-'') ''0'') = Inr 0"
  by (simp add: split_on_def isdigit_def int_str_def is_ascii_def ascii_isdigit_def digit_chars_def
      int_of_digits_def digit_val_def)

lemma delete_run:
  "apply_fix planar two_lines ''0'' ''DELETE'' None =
     (Some \<lparr>success = True, message = ''Deleted geometry''\<rparr>,
      two_lines\<lparr>current_geometries := [None, Some line_b],
        applied_fixes := [\<lparr>error_id = ''0'', fix_type = ''DELETE'', original = wkt planar line_a,
                           result = ''Deleted geometry'', timestamp = ''now''\<rparr>]\<rparr>)"
  unfolding apply_fix_def apply_fix_body_def Let_def find_index_0 dispatch_def upper_DELETE
  by (simp add: two_lines_def)

section \<open>The claims\<close>

text \<open>
  C2. A call of \<open>apply_fix\<close>, with any finding id, fix type and parameters, leaves
  \<open>original_geometries\<close> as it was: the engine after the call is the engine before it
  with, at most, \<open>current_geometries\<close> and \<open>applied_fixes\<close> changed.
\<close>

theorem apply_fix_keeps_original:
  "original_geometries (snd (apply_fix lib e eid ftype params)) = original_geometries e \<and>
   (\<exists>cur' log'. snd (apply_fix lib e eid ftype params) =
                   e\<lparr>current_geometries := cur', applied_fixes := log'\<rparr>)"
proof -
  obtain r e' where run: "apply_fix lib e eid ftype params = (r, e')"
    by (cases "apply_fix lib e eid ftype params")
  from apply_fix_char[OF run] show ?thesis
  proof
    assume "\<exists>m. r = Some \<lparr>success = False, message = m\<rparr> \<and> e' = e"
    then have same: "snd (apply_fix lib e eid ftype params) = e"
      using run by simp
    have "e = e\<lparr>current_geometries := current_geometries e, applied_fixes := applied_fixes e\<rparr>"
      by simp
    then have "\<exists>cur' log'. e = e\<lparr>current_geometries := cur', applied_fixes := log'\<rparr>"
      by blast
    with same show ?thesis by simp
  next
    assume "\<exists>fr cur' geom idx.
            r = Some \<lparr>success = True, message = fr\<rparr> \<and>
            find_index lib (split_on (CHR ''-'') eid) = Inr (int idx) \<and>
            idx < length (current_geometries e) \<and>
            current_geometries e ! idx = Some geom \<and>
            (cur' = current_geometries e \<or> (\<exists>v. cur' = (current_geometries e)[idx := v])) \<and>
            e' = e\<lparr>current_geometries := cur',
                   applied_fixes := applied_fixes e @
                     [\<lparr>error_id = eid, fix_type = ftype, original = wkt lib geom,
                       result = fr, timestamp = ''now''\<rparr>]\<rparr>"
    with run show ?thesis by auto
  qed
qed

theorem apply_fix_keeps_original_witness:
  "original_geometries (snd (apply_fix planar two_lines ''0'' ''DELETE'' None)) =
     [Some line_a, Some line_b] \<and>
   current_geometries (snd (apply_fix planar two_lines ''0'' ''DELETE'' None)) =
     [None, Some line_b]"
  using apply_fix_keeps_original[of planar two_lines "''0''" "''DELETE''" None]
  by (simp add: delete_run) (simp add: two_lines_def)

lemma find_index_none: "\<forall>p \<in> set ps. \<not> isdigit lib p \<Longrightarrow> find_index lib ps = Inr (- 1)"
  by (induction ps) auto

lemma str_int_minus_one: "str_int (- 1) = ''-1''"
  by (simp add: str_int_def str_nat.simps digit_chars_def)

text \<open>
  C3. Every call of \<open>apply_fix\<close> returns a response. When the response says success, the
  call has appended exactly one record to \<open>applied_fixes\<close>: the finding id and fix type of
  the call, the text form of the geometry before the change, and the returned message.
  When it says failure, \<open>applied_fixes\<close> is as it was.
\<close>

theorem apply_fix_log:
  "\<exists>r. fst (apply_fix lib e eid ftype params) = Some r \<and>
     (if success r
      then \<exists>geom. applied_fixes (snd (apply_fix lib e eid ftype params)) =
             applied_fixes e @
               [\<lparr>error_id = eid, fix_type = ftype, original = wkt lib geom,
                 result = message r, timestamp = ''now''\<rparr>]
      else applied_fixes (snd (apply_fix lib e eid ftype params)) = applied_fixes e)"
proof -
  obtain r e' where run: "apply_fix lib e eid ftype params = (r, e')"
    by (cases "apply_fix lib e eid ftype params")
  from apply_fix_char[OF run] show ?thesis
  proof
    assume "\<exists>m. r = Some \<lparr>success = False, message = m\<rparr> \<and> e' = e"
    then obtain m where "r = Some \<lparr>success = False, message = m\<rparr>" "e' = e" by blast
    then show ?thesis unfolding run by simp
  next
    assume "\<exists>fr cur' geom idx.
            r = Some \<lparr>success = True, message = fr\<rparr> \<and>
            find_index lib (split_on (CHR ''-'') eid) = Inr (int idx) \<and>
            idx < length (current_geometries e) \<and>
            current_geometries e ! idx = Some geom \<and>
            (cur' = current_geometries e \<or> (\<exists>v. cur' = (current_geometries e)[idx := v])) \<and>
            e' = e\<lparr>current_geometries := cur',
                   applied_fixes := applied_fixes e @
                     [\<lparr>error_id = eid, fix_type = ftype, original = wkt lib geom,
                       result = fr, timestamp = ''now''\<rparr>]\<rparr>"
    then obtain fr cur' geom where
      r: "r = Some \<lparr>success = True, message = fr\<rparr>" and
      e': "e' = e\<lparr>current_geometries := cur',
                   applied_fixes := applied_fixes e @
                     [\<lparr>error_id = eid, fix_type = ftype, original = wkt lib geom,
                       result = fr, timestamp = ''now''\<rparr>]\<rparr>"
      by blast
    have "applied_fixes e' = applied_fixes e @
            [\<lparr>error_id = eid, fix_type = ftype, original = wkt lib geom,
              result = fr, timestamp = ''now''\<rparr>]"
      by (simp add: e')
    then show ?thesis unfolding run r by auto
  qed
qed

theorem apply_fix_log_witness:
  "length (applied_fixes (snd (apply_fix planar two_lines ''0'' ''DELETE'' None))) = 1"
  using apply_fix_log[of planar two_lines "''0''" "''DELETE''" None]
  by (simp add: delete_run) 

text \<open>
  C7, as amended. For an index outside the bounds of \<open>current_geometries\<close>,
  \<open>get_geometry\<close> returns None. That is the value a deleted or unparsed slot gives too:
  the counterexample reads index 2 of a two-slot list and the deleted slot 0, and gets
  None both times, so the out-of-range outcome is not a distinguishable error.
\<close>

theorem get_geometry_out_of_range:
  "index < 0 \<or> int (length (current_geometries e)) \<le> index \<Longrightarrow> get_geometry e index = None"
  by (auto simp: get_geometry_def)

theorem get_geometry_out_of_range_witness:
  "(2 < (0::int) \<or> int (length (current_geometries two_lines)) \<le> 2) \<and> get_geometry two_lines 2 = None"
  using get_geometry_out_of_range[of 2 two_lines] by (simp add: two_lines_def)

theorem get_geometry_tombstone_counterexample:
  "get_geometry (two_lines\<lparr>current_geometries := [None, Some line_b]\<rparr>) 2 = None \<and>
   get_geometry (two_lines\<lparr>current_geometries := [None, Some line_b]\<rparr>) 0 = None"
  by (simp add: get_geometry_def)

lemma find_index_unparsed:
  "\<forall>p \<in> set ps. isdigit lib p \<longrightarrow> (\<exists>ex. int_str lib p = Inl ex) \<Longrightarrow>
     find_index lib ps = Inr (- 1) \<or>
     (\<exists>p \<in> set ps. \<exists>ex. isdigit lib p \<and> int_str lib p = Inl ex \<and> find_index lib ps = Inl ex)"
  by (induction ps) auto

text \<open>
  C8, as amended. When no token of the finding id (split at \<open>-\<close>) is all digits
  (\<open>str.isdigit\<close>), \<open>apply_fix\<close> returns failure with the message
  \<open>Invalid geometry index: -1\<close> and leaves the whole engine, the list and the log included,
  as it was. More generally, when no token parses as an integer, that is, every token that
  is all digits is one that \<open>int\<close> rejects, the call fails and leaves the engine as it was,
  and its message is that one or the text of the exception of \<open>int\<close>. The message carries
  the unresolved index \<open>-1\<close>; the counterexample shows that it is not the bare text
  \<open>Invalid geometry index\<close>.
\<close>

theorem apply_fix_no_digit_token:
  "((\<forall>p \<in> set (split_on (CHR ''-'') eid). \<not> isdigit lib p) \<longrightarrow>
      apply_fix lib e eid ftype params =
        (Some \<lparr>success = False, message = ''Invalid geometry index: -1''\<rparr>, e)) \<and>
   ((\<forall>p \<in> set (split_on (CHR ''-'') eid). isdigit lib p \<longrightarrow> (\<exists>ex. int_str lib p = Inl ex)) \<longrightarrow>
      (\<exists>m. apply_fix lib e eid ftype params = (Some \<lparr>success = False, message = m\<rparr>, e) \<and>
           (m = ''Invalid geometry index: -1'' \<or>
            (\<exists>p \<in> set (split_on (CHR ''-'') eid). \<exists>ex.
               isdigit lib p \<and> int_str lib p = Inl ex \<and> m = str_exn ex))))"
proof (intro conjI impI)
  assume "\<forall>p \<in> set (split_on (CHR ''-'') eid). \<not> isdigit lib p"
  from find_index_none[OF this]
  show "apply_fix lib e eid ftype params =
        (Some \<lparr>success = False, message = ''Invalid geometry index: -1''\<rparr>, e)"
    by (simp add: apply_fix_def apply_fix_body_def str_int_minus_one)
next
  assume "\<forall>p \<in> set (split_on (CHR ''-'') eid). isdigit lib p \<longrightarrow> (\<exists>ex. int_str lib p = Inl ex)"
  from find_index_unparsed[OF this]
  show "\<exists>m. apply_fix lib e eid ftype params = (Some \<lparr>success = False, message = m\<rparr>, e) \<and>
           (m = ''Invalid geometry index: -1'' \<or>
            (\<exists>p \<in> set (split_on (CHR ''-'') eid). \<exists>ex.
               isdigit lib p \<and> int_str lib p = Inl ex \<and> m = str_exn ex))"
  proof
    assume "find_index lib (split_on (CHR ''-'') eid) = Inr (- 1)"
    then have "apply_fix lib e eid ftype params =
        (Some \<lparr>success = False, message = ''Invalid geometry index: -1''\<rparr>, e)"
      by (simp add: apply_fix_def apply_fix_body_def str_int_minus_one)
    then show ?thesis by blast
  next
    assume "\<exists>p \<in> set (split_on (CHR ''-'') eid). \<exists>ex.
              isdigit lib p \<and> int_str lib p = Inl ex \<and>
              find_index lib (split_on (CHR ''-'') eid) = Inl ex"
    then obtain p ex where p: "p \<in> set (split_on (CHR ''-'') eid)" "isdigit lib p"
      "int_str lib p = Inl ex" "find_index lib (split_on (CHR ''-'') eid) = Inl ex"
      by blast
    from p(4) have "apply_fix lib e eid ftype params =
        (Some \<lparr>success = False, message = str_exn ex\<rparr>, e)"
      by (simp add: apply_fix_def apply_fix_body_def)
    with p(1,2,3) show ?thesis by blast
  qed
qed

lemma tokens_dangle_start: "split_on (CHR ''-'') ''dangle-start'' = [''dangle'', ''start'']"
  by (simp add: split_on_def)

lemma not_digits_dangle_start: "\<not> isdigit lib ''dangle''" "\<not> isdigit lib ''start''"
  by (simp_all add: isdigit_def is_ascii_def ascii_isdigit_def digit_chars_def)

lemma no_digit_dangle_start:
  "\<forall>p \<in> set (split_on (CHR ''-'') ''dangle-start''). \<not> isdigit lib p"
  by (simp add: tokens_dangle_start not_digits_dangle_start)

lemma superscript_two_digit:
  "isdigit planar_sup superscript_two"
  "int_str planar_sup superscript_two = Inl (ValueError (''invalid literal for int() with base 10: '' @ quoted superscript_two))"
  by (simp_all add: isdigit_def int_str_def is_ascii_def superscript_two_def planar_sup_def planar_def
      planar_int_def)

lemma superscript_two_unparsed:
  "\<forall>p \<in> set (split_on (CHR ''-'') superscript_two).
     isdigit planar_sup p \<longrightarrow> (\<exists>ex. int_str planar_sup p = Inl ex)"
proof -
  have "split_on (CHR ''-'') superscript_two = [superscript_two]"
    by (simp add: split_on_def superscript_two_def)
  then show ?thesis by (simp add: superscript_two_digit)
qed

theorem apply_fix_no_digit_token_witness:
  "split_on (CHR ''-'') ''dangle-start'' = [''dangle'', ''start''] \<and>
   \<not> isdigit planar ''dangle'' \<and> \<not> isdigit planar ''start'' \<and>
   apply_fix planar two_lines ''dangle-start'' ''DELETE'' None =
     (Some \<lparr>success = False, message = ''Invalid geometry index: -1''\<rparr>, two_lines) \<and>
   isdigit planar_sup superscript_two \<and>
   apply_fix planar_sup two_lines superscript_two ''DELETE'' None =
     (Some \<lparr>success = False, message = ''invalid literal for int() with base 10: '' @ quoted superscript_two\<rparr>, two_lines)"
proof -
  note t1 = apply_fix_no_digit_token[of "''dangle-start''" planar two_lines "''DELETE''" None]
  note t2 = apply_fix_no_digit_token[of superscript_two planar_sup two_lines "''DELETE''" None]
  from t1 no_digit_dangle_start[of planar]
  have a: "apply_fix planar two_lines ''dangle-start'' ''DELETE'' None =
     (Some \<lparr>success = False, message = ''Invalid geometry index: -1''\<rparr>, two_lines)"
    by blast
  have fi: "find_index planar_sup (split_on (CHR ''-'') superscript_two) =
              Inl (ValueError (''invalid literal for int() with base 10: '' @ quoted superscript_two))"
    by (simp add: split_on_def superscript_two_def superscript_two_digit[unfolded superscript_two_def])
  from t2 superscript_two_unparsed
  obtain m where "apply_fix planar_sup two_lines superscript_two ''DELETE'' None =
      (Some \<lparr>success = False, message = m\<rparr>, two_lines)"
    by blast
  moreover have "apply_fix planar_sup two_lines superscript_two ''DELETE'' None =
     (Some \<lparr>success = False, message = ''invalid literal for int() with base 10: '' @ quoted superscript_two\<rparr>, two_lines)"
    by (simp add: apply_fix_def apply_fix_body_def fi)
  ultimately have b: "apply_fix planar_sup two_lines superscript_two ''DELETE'' None =
     (Some \<lparr>success = False, message = ''invalid literal for int() with base 10: '' @ quoted superscript_two\<rparr>, two_lines)"
    by simp
  from a b tokens_dangle_start not_digits_dangle_start[of planar] superscript_two_digit(1)
  show ?thesis by blast
qed

theorem invalid_index_message_counterexample:
  "fst (apply_fix planar two_lines ''dangle-start'' ''DELETE'' None) =
     Some \<lparr>success = False, message = ''Invalid geometry index: -1''\<rparr> \<and>
   fst (apply_fix planar two_lines ''dangle-start'' ''DELETE'' None) \<noteq>
     Some \<lparr>success = False, message = ''Invalid geometry index''\<rparr>"
proof -
  have "find_index planar (split_on (CHR ''-'') ''dangle-start'') = Inr (- 1)"
    by (rule find_index_none) (rule no_digit_dangle_start)
  then show ?thesis
    by (simp add: apply_fix_def apply_fix_body_def str_int_minus_one)
qed

lemma apply_fix_step:
  assumes "e' = snd (apply_fix lib e eid ftype params)"
  shows "original_geometries e' = original_geometries e \<and>
         length (current_geometries e') = length (current_geometries e) \<and>
         (\<forall>i. find_index lib (split_on (CHR ''-'') eid) \<noteq> Inr (int i) \<longrightarrow>
              current_geometries e' ! i = current_geometries e ! i)"
proof -
  obtain r where run: "apply_fix lib e eid ftype params = (r, e')"
    using assms by (cases "apply_fix lib e eid ftype params") simp
  from apply_fix_char[OF run] show ?thesis
  proof
    assume "\<exists>m. r = Some \<lparr>success = False, message = m\<rparr> \<and> e' = e"
    then show ?thesis by simp
  next
    assume "\<exists>fr cur' geom idx.
            r = Some \<lparr>success = True, message = fr\<rparr> \<and>
            find_index lib (split_on (CHR ''-'') eid) = Inr (int idx) \<and>
            idx < length (current_geometries e) \<and>
            current_geometries e ! idx = Some geom \<and>
            (cur' = current_geometries e \<or> (\<exists>v. cur' = (current_geometries e)[idx := v])) \<and>
            e' = e\<lparr>current_geometries := cur',
                   applied_fixes := applied_fixes e @
                     [\<lparr>error_id = eid, fix_type = ftype, original = wkt lib geom,
                       result = fr, timestamp = ''now''\<rparr>]\<rparr>"
    then obtain fr cur' geom idx where
      fi: "find_index lib (split_on (CHR ''-'') eid) = Inr (int idx)" and
      c: "cur' = current_geometries e \<or> (\<exists>v. cur' = (current_geometries e)[idx := v])" and
      e': "e' = e\<lparr>current_geometries := cur',
                   applied_fixes := applied_fixes e @
                     [\<lparr>error_id = eid, fix_type = ftype, original = wkt lib geom,
                       result = fr, timestamp = ''now''\<rparr>]\<rparr>"
      by blast
    have cur: "current_geometries e' = cur'" and orig: "original_geometries e' = original_geometries e"
      by (simp_all add: e')
    from c show ?thesis
    proof
      assume "cur' = current_geometries e"
      with cur orig show ?thesis by simp
    next
      assume "\<exists>v. cur' = (current_geometries e)[idx := v]"
      then obtain v where v: "cur' = (current_geometries e)[idx := v]"
        by blast
      have "\<And>i. find_index lib (split_on (CHR ''-'') eid) \<noteq> Inr (int i) \<Longrightarrow>
                 cur' ! i = current_geometries e ! i"
      proof -
        fix i assume "find_index lib (split_on (CHR ''-'') eid) \<noteq> Inr (int i)"
        with fi have "idx \<noteq> i" by auto
        then show "cur' ! i = current_geometries e ! i" by (simp add: v)
      qed
      with cur orig v show ?thesis by simp
    qed
  qed
qed

lemma apply_fixes_inv:
  "original_geometries (apply_fixes lib e calls) = original_geometries e \<and>
   length (current_geometries (apply_fixes lib e calls)) = length (current_geometries e) \<and>
   (\<forall>i. (\<forall>c \<in> set calls. find_index lib (split_on (CHR ''-'') (fst c)) \<noteq> Inr (int i)) \<longrightarrow>
        current_geometries (apply_fixes lib e calls) ! i = current_geometries e ! i)"
proof (induction calls arbitrary: e)
  case Nil
  show ?case by simp
next
  case (Cons c calls)
  let ?e' = "snd (apply_fix lib e (fst c) (fst (snd c)) (snd (snd c)))"
  note step = apply_fix_step[of ?e' lib e "fst c" "fst (snd c)" "snd (snd c)", OF refl]
  note ih = Cons.IH[of ?e']
  show ?case
    using step ih by simp
qed

lemma load_aligned:
  "current_geometries (fst (load_wkt_content lib e content)) =
   original_geometries (fst (load_wkt_content lib e content))"
  by (simp add: load_wkt_content_def Let_def)

text \<open>
  C1. After a load and any run of calls of \<open>apply_fix\<close> (any ids, fix types and
  parameters, succeeding or failing), \<open>current_geometries\<close> and \<open>original_geometries\<close>
  have the same length, and positions never shift: every slot that no call of the run
  resolves to still holds what the load put at that position, which is what the original
  list holds there.
\<close>

theorem alignment_after_fixes:
  "length (current_geometries (apply_fixes lib (fst (load_wkt_content lib e content)) calls)) =
   length (original_geometries (apply_fixes lib (fst (load_wkt_content lib e content)) calls)) \<and>
   (\<forall>i < length (original_geometries (apply_fixes lib (fst (load_wkt_content lib e content)) calls)).
      (\<forall>c \<in> set calls. find_index lib (split_on (CHR ''-'') (fst c)) \<noteq> Inr (int i)) \<longrightarrow>
      current_geometries (apply_fixes lib (fst (load_wkt_content lib e content)) calls) ! i =
      original_geometries (apply_fixes lib (fst (load_wkt_content lib e content)) calls) ! i)"
  using apply_fixes_inv[of lib "fst (load_wkt_content lib e content)" calls]
        load_aligned[of lib e content]
  by simp

lemma strip_a: "strip lib ''LINESTRING(0 0, 10 0)'' = ''LINESTRING(0 0, 10 0)''"
  by (simp add: strip_def is_ascii_def ascii_strip_def isspace_def)

lemma strip_b: "strip lib ''LINESTRING(10 0, 10 10)'' = ''LINESTRING(10 0, 10 10)''"
  by (simp add: strip_def is_ascii_def ascii_strip_def isspace_def)

lemma strip_a_sp: "ascii_strip ''LINESTRING(0 0, 10 0) '' = ''LINESTRING(0 0, 10 0)''"
  by (simp add: ascii_strip_def isspace_def)

lemma strip_b_sp: "ascii_strip ''LINESTRING(10 0, 10 10) '' = ''LINESTRING(10 0, 10 10)''"
  by (simp add: ascii_strip_def isspace_def)

lemma parse_a: "parse_coords ''0 0, 10 0'' = Some [(0, 0), (10, 0)]"
  by (simp add: split_on_def parse_coords_def parse_coord_def parse_nat_def ascii_isdigit_def digit_chars_def
      int_of_digits_def digit_val_def)

lemma parse_b: "parse_coords ''10 0, 10 10'' = Some [(10, 0), (10, 10)]"
  by (simp add: split_on_def parse_coords_def parse_coord_def parse_nat_def ascii_isdigit_def digit_chars_def
      int_of_digits_def digit_val_def)

lemma loads_a: "planar_loads ''LINESTRING(0 0, 10 0) '' = Inr line_a"
  unfolding planar_loads_def Let_def strip_a_sp
  by (simp add: endswith_def parse_a line_a_def)

lemma loads_b: "planar_loads ''LINESTRING(10 0, 10 10) '' = Inr line_b"
  unfolding planar_loads_def Let_def strip_b_sp
  by (simp add: endswith_def parse_b line_b_def)

lemma split_text: "splitlines lib two_lines_text = [''LINESTRING(0 0, 10 0)'', ''LINESTRING(10 0, 10 10)'']"
  by (simp add: two_lines_text_def splitlines_def is_ascii_def ascii_splitlines_def is_linebreak_def)

lemma ends_a: "endswith ''LINESTRING(0 0, 10 0)'' '')''" by (simp add: endswith_def)
lemma ends_b: "endswith ''LINESTRING(10 0, 10 10)'' '')''" by (simp add: endswith_def)

lemma last_a: "last (split_on (CHR '';'') ''LINESTRING(0 0, 10 0) '') = ''LINESTRING(0 0, 10 0) ''"
  by (simp add: split_on_def)
lemma last_b: "last (split_on (CHR '';'') ''LINESTRING(10 0, 10 10) '') = ''LINESTRING(10 0, 10 10) ''"
  by (simp add: split_on_def)

lemma wkt_loads_planar: "wkt_loads planar = planar_loads" by (simp add: planar_def)

lemma load_two: "load_wkt_content planar e two_lines_text = (e\<lparr>original_geometries := [Some line_a, Some line_b], current_geometries := [Some line_a, Some line_b], applied_fixes := []\<rparr>, 2)"
  unfolding load_wkt_content_def split_text Let_def load_loop.simps strip_a strip_b
  apply (simp only: ends_a ends_b if_True if_False list.distinct append_Nil append.simps last_a last_b wkt_loads_planar loads_a loads_b sum.case)
  apply (simp add: line_a_def line_b_def)
  done


lemma load_two_lines: "fst (load_wkt_content planar two_lines two_lines_text) = two_lines"
  by (simp add: load_two) (simp add: two_lines_def)

lemma delete_first: "apply_fixes planar two_lines [(''0'', ''DELETE'', None)] =
   two_lines\<lparr>current_geometries := [None, Some line_b],
        applied_fixes := [\<lparr>error_id = ''0'', fix_type = ''DELETE'', original = wkt planar line_a,
                           result = ''Deleted geometry'', timestamp = ''now''\<rparr>]\<rparr>"
  by (simp add: delete_run)

theorem alignment_after_fixes_witness:
  "length (current_geometries (apply_fixes planar (fst (load_wkt_content planar two_lines two_lines_text))
      [(''0'', ''DELETE'', None)])) = 2 \<and>
   current_geometries (apply_fixes planar (fst (load_wkt_content planar two_lines two_lines_text))
      [(''0'', ''DELETE'', None)]) ! 1 = Some line_b \<and>
   original_geometries (apply_fixes planar (fst (load_wkt_content planar two_lines two_lines_text))
      [(''0'', ''DELETE'', None)]) ! 1 = Some line_b"
  using alignment_after_fixes[of planar two_lines two_lines_text "[(''0'', ''DELETE'', None)]"]
  unfolding load_two_lines delete_first
  by (simp add: two_lines_def)

lemma valid_geoms_eq:
  "valid_geoms e = [g. Some g \<leftarrow> current_geometries e, \<not> is_empty g]"
proof -
  have "List.map_filter (\<lambda>g. case g of None \<Rightarrow> None | Some x \<Rightarrow> if is_empty x then None else Some x) xs
        = [g. Some g \<leftarrow> xs, \<not> is_empty g]" for xs
    by (induction xs) (auto simp: map_filter_simps split: option.splits)
  then show ?thesis by (simp add: valid_geoms_def)
qed

text \<open>
  C9, as amended. \<open>export_fixed_wkt\<close> collects the slots that hold a non-empty geometry.
  When every slot is None or empty (none is left), it returns the empty string; when
  exactly one is left, the text form of that geometry. When more than one is left and each
  of them is a line (a LineString or a LinearRing), it returns the text form of the
  MultiLineString of their coordinate lists, in order. When more than one is left and one
  of them is not a line (a point, a polygon, a collection), the MultiLineString
  constructor raises, nothing catches it and no text is returned: the wrapping is not
  unconditional, as the counterexample shows on a point and a line.
\<close>

theorem export_fixed_wkt_cases:
  "((\<forall>s \<in> set (current_geometries e). s = None \<or> (\<exists>g. s = Some g \<and> is_empty g)) \<longrightarrow>
      export_fixed_wkt lib e = Inr []) \<and>
   ([g. Some g \<leftarrow> current_geometries e, \<not> is_empty g] = [] \<longrightarrow>
      export_fixed_wkt lib e = Inr []) \<and>
   (\<forall>g. [g. Some g \<leftarrow> current_geometries e, \<not> is_empty g] = [g] \<longrightarrow>
      export_fixed_wkt lib e = Inr (wkt lib g)) \<and>
   (1 < length [g. Some g \<leftarrow> current_geometries e, \<not> is_empty g] \<longrightarrow>
      (list_all is_line [g. Some g \<leftarrow> current_geometries e, \<not> is_empty g] \<longrightarrow>
         export_fixed_wkt lib e =
           Inr (wkt lib (MultiLineString
                  (map line_of [g. Some g \<leftarrow> current_geometries e, \<not> is_empty g])))) \<and>
      (\<not> list_all is_line [g. Some g \<leftarrow> current_geometries e, \<not> is_empty g] \<longrightarrow>
         export_fixed_wkt lib e =
           Inl (collection_error lib [g. Some g \<leftarrow> current_geometries e, \<not> is_empty g])))"
proof -
  have dead: "(\<forall>s \<in> set xs. s = None \<or> (\<exists>g. s = Some g \<and> is_empty g)) \<Longrightarrow>
              [g. Some g \<leftarrow> xs, \<not> is_empty g] = []" for xs :: "geometry option list"
    by (induction xs) auto
  define live where "live = [g. Some g \<leftarrow> current_geometries e, \<not> is_empty g]"
  have ex: "export_fixed_wkt lib e =
              (if live = [] then Inr []
               else if length live = 1 then Inr (wkt lib (hd live))
               else (case new_MultiLineString lib live of
                       Inl ex \<Rightarrow> Inl ex
                     | Inr collection \<Rightarrow> Inr (wkt lib collection)))"
    by (simp only: export_fixed_wkt_def valid_geoms_eq live_def)
  have a: "(\<forall>s \<in> set (current_geometries e). s = None \<or> (\<exists>g. s = Some g \<and> is_empty g)) \<longrightarrow>
           export_fixed_wkt lib e = Inr []"
    using dead[of "current_geometries e"] ex by (simp add: live_def)
  have b: "live = [] \<longrightarrow> export_fixed_wkt lib e = Inr []"
    using ex by simp
  have c: "\<forall>g. live = [g] \<longrightarrow> export_fixed_wkt lib e = Inr (wkt lib g)"
    using ex by simp
  have d: "1 < length live \<longrightarrow>
           export_fixed_wkt lib e =
             (case new_MultiLineString lib live of
                Inl ex \<Rightarrow> Inl ex
              | Inr collection \<Rightarrow> Inr (wkt lib collection))"
    using ex by auto
  have d1: "1 < length live \<longrightarrow> list_all is_line live \<longrightarrow>
            export_fixed_wkt lib e = Inr (wkt lib (MultiLineString (map line_of live)))"
    using d by (simp add: new_MultiLineString_def)
  have d2: "1 < length live \<longrightarrow> \<not> list_all is_line live \<longrightarrow>
            export_fixed_wkt lib e = Inl (collection_error lib live)"
    using d by (simp add: new_MultiLineString_def)
  from a b c d1 d2 show ?thesis unfolding live_def by blast
qed

lemma live_two_lines:
  "[g. Some g \<leftarrow> current_geometries two_lines, \<not> is_empty g] = [line_a, line_b]"
  by (simp add: two_lines_def line_a_def line_b_def)

lemma live_point_near_b:
  "[g. Some g \<leftarrow> current_geometries point_near_b, \<not> is_empty g] = [Point [(9, 0)], line_b]"
  by (simp add: point_near_b_def line_b_def)

theorem export_fixed_wkt_cases_witness:
  "1 < length [g. Some g \<leftarrow> current_geometries two_lines, \<not> is_empty g] \<and>
   list_all is_line [g. Some g \<leftarrow> current_geometries two_lines, \<not> is_empty g] \<and>
   export_fixed_wkt planar two_lines =
     Inr (wkt planar (MultiLineString [[(0, 0), (10, 0)], [(10, 0), (10, 10)]])) \<and>
   export_fixed_wkt planar (two_lines\<lparr>current_geometries := [None, None]\<rparr>) = Inr [] \<and>
   export_fixed_wkt planar (two_lines\<lparr>current_geometries := [None, Some line_b]\<rparr>) =
     Inr (wkt planar line_b) \<and>
   1 < length [g. Some g \<leftarrow> current_geometries point_near_b, \<not> is_empty g] \<and>
   list_ex (\<lambda>g. \<not> is_line g) [g. Some g \<leftarrow> current_geometries point_near_b, \<not> is_empty g] \<and>
   export_fixed_wkt planar point_near_b = Inl (TypeError (quoted ''Point'' @ '' object is not iterable''))"
proof -
  note t1 = export_fixed_wkt_cases[of two_lines planar]
  note t2 = export_fixed_wkt_cases[of "two_lines\<lparr>current_geometries := [None, None]\<rparr>" planar]
  note t3 = export_fixed_wkt_cases[of "two_lines\<lparr>current_geometries := [None, Some line_b]\<rparr>" planar]
  note t4 = export_fixed_wkt_cases[of point_near_b planar]
  have a: "export_fixed_wkt planar two_lines =
     Inr (wkt planar (MultiLineString [[(0, 0), (10, 0)], [(10, 0), (10, 10)]]))"
    using t1 unfolding live_two_lines by (simp add: line_a_def line_b_def)
  have b: "export_fixed_wkt planar (two_lines\<lparr>current_geometries := [None, None]\<rparr>) = Inr []"
    using t2 by simp
  have c: "export_fixed_wkt planar (two_lines\<lparr>current_geometries := [None, Some line_b]\<rparr>) =
     Inr (wkt planar line_b)"
    using t3 by (simp add: line_b_def)
  have d: "export_fixed_wkt planar point_near_b = Inl (TypeError (quoted ''Point'' @ '' object is not iterable''))"
    using t4 unfolding live_point_near_b by (simp add: line_b_def planar_def planar_collection_error_def)
  show ?thesis
    unfolding live_two_lines live_point_near_b
    using a b c d by (simp add: line_a_def line_b_def)
qed

theorem export_mixed_kinds_counterexample:
  "length [g. Some g \<leftarrow> current_geometries point_near_b, \<not> is_empty g] = 2 \<and>
   export_fixed_wkt planar point_near_b = Inl (TypeError (quoted ''Point'' @ '' object is not iterable''))"
  by (simp add: export_fixed_wkt_def valid_geoms_def map_filter_simps point_near_b_def line_b_def
      new_MultiLineString_def planar_def planar_collection_error_def)

text \<open>
  C6. DELETE on slot 0 of the two-line data succeeds; a second DELETE on the same,
  in-bounds index fails: the slot now holds None, reading its text form raises
  AttributeError, and the handler returns failure with the engine unchanged.
\<close>

theorem delete_tombstone_fails:
  "apply_fix planar (snd (apply_fix planar two_lines ''0'' ''DELETE'' None)) ''0'' ''DELETE'' None =
     (Some \<lparr>success = False, message = str_exn none_has_no_wkt\<rparr>,
      snd (apply_fix planar two_lines ''0'' ''DELETE'' None))"
  unfolding delete_run snd_conv
  unfolding apply_fix_def apply_fix_body_def Let_def find_index_0
  by simp

text \<open>
  The loop of the SNAP strategy, when every distance call returns and the tolerance is a
  number: it leaves its state as it was when no other slot is both below the running
  minimum and below the tolerance; otherwise it ends on a slot below the tolerance that no
  other slot within the tolerance undercuts.
\<close>

lemma flt_trans: "flt a b \<Longrightarrow> flt b c \<Longrightarrow> flt a c"
  by (cases a; cases b; cases c) auto

lemma flt_asym: "flt a b \<Longrightarrow> \<not> flt b a"
  by (cases a; cases b) auto

lemma flt_PosInf: "flt a b \<Longrightarrow> flt a PosInf"
  by (cases a; cases b) auto

lemma snap_scan_spec:
  assumes dist: "\<forall>j<length cur. j \<noteq> idx \<longrightarrow> distance lib geom (cur ! j) = Inr (dd j)"
  shows "i \<le> length cur \<Longrightarrow>
    \<exists>best' md'. snap_scan lib geom (Num tol) idx i (drop i cur) (best, md) = Inr (best', md') \<and>
      ((best' = best \<and> md' = md \<and>
        (\<forall>j. i \<le> j \<and> j < length cur \<and> j \<noteq> idx \<longrightarrow> \<not> (flt (dd j) md \<and> flt (dd j) tol))) \<or>
       (\<exists>k. i \<le> k \<and> k < length cur \<and> k \<noteq> idx \<and> best' = cur ! k \<and> md' = dd k \<and>
            flt md' md \<and> flt md' tol \<and>
            (\<forall>j. i \<le> j \<and> j < length cur \<and> j \<noteq> idx \<and> flt (dd j) tol \<longrightarrow> \<not> flt (dd j) md')))"
proof (induction "length cur - i" arbitrary: i best md)
  case 0
  then have "drop i cur = []" by simp
  with 0 show ?case by auto
next
  case (Suc n)
  then have i: "i < length cur" and n: "n = length cur - Suc i" and le: "Suc i \<le> length cur" by auto
  have dr: "drop i cur = cur ! i # drop (Suc i) cur"
    using i by (simp add: Cons_nth_drop_Suc)
  have split: "\<And>j. i \<le> j \<longleftrightarrow> j = i \<or> Suc i \<le> j" by auto
  show ?case
  proof (cases "i = idx")
    case True
    from Suc.hyps(1)[OF n le, of best md] obtain best' md' where
      r: "snap_scan lib geom (Num tol) idx (Suc i) (drop (Suc i) cur) (best, md) = Inr (best', md')" and
      c: "(best' = best \<and> md' = md \<and>
           (\<forall>j. Suc i \<le> j \<and> j < length cur \<and> j \<noteq> idx \<longrightarrow> \<not> (flt (dd j) md \<and> flt (dd j) tol))) \<or>
          (\<exists>k. Suc i \<le> k \<and> k < length cur \<and> k \<noteq> idx \<and> best' = cur ! k \<and> md' = dd k \<and>
            flt md' md \<and> flt md' tol \<and>
            (\<forall>j. Suc i \<le> j \<and> j < length cur \<and> j \<noteq> idx \<and> flt (dd j) tol \<longrightarrow> \<not> flt (dd j) md'))"
      by blast
    have run: "snap_scan lib geom (Num tol) idx i (drop i cur) (best, md) = Inr (best', md')"
      unfolding dr using True r by simp
    from c have "(best' = best \<and> md' = md \<and>
           (\<forall>j. i \<le> j \<and> j < length cur \<and> j \<noteq> idx \<longrightarrow> \<not> (flt (dd j) md \<and> flt (dd j) tol))) \<or>
          (\<exists>k. i \<le> k \<and> k < length cur \<and> k \<noteq> idx \<and> best' = cur ! k \<and> md' = dd k \<and>
            flt md' md \<and> flt md' tol \<and>
            (\<forall>j. i \<le> j \<and> j < length cur \<and> j \<noteq> idx \<and> flt (dd j) tol \<longrightarrow> \<not> flt (dd j) md'))"
      using True by (metis Suc_leI le_neq_implies_less le_SucI Suc_leD)
    with run show ?thesis by blast
  next
    case False
    with dist i have d: "distance lib geom (cur ! i) = Inr (dd i)" by simp
    show ?thesis
    proof (cases "flt (dd i) md \<and> flt (dd i) tol")
      case True
      from Suc.hyps(1)[OF n le, of "cur ! i" "dd i"] obtain best' md' where
        r: "snap_scan lib geom (Num tol) idx (Suc i) (drop (Suc i) cur) (cur ! i, dd i) = Inr (best', md')" and
        c: "(best' = cur ! i \<and> md' = dd i \<and>
             (\<forall>j. Suc i \<le> j \<and> j < length cur \<and> j \<noteq> idx \<longrightarrow> \<not> (flt (dd j) (dd i) \<and> flt (dd j) tol))) \<or>
            (\<exists>k. Suc i \<le> k \<and> k < length cur \<and> k \<noteq> idx \<and> best' = cur ! k \<and> md' = dd k \<and>
              flt md' (dd i) \<and> flt md' tol \<and>
              (\<forall>j. Suc i \<le> j \<and> j < length cur \<and> j \<noteq> idx \<and> flt (dd j) tol \<longrightarrow> \<not> flt (dd j) md'))"
        by blast
      have run: "snap_scan lib geom (Num tol) idx i (drop i cur) (best, md) = Inr (best', md')"
        unfolding dr using False True r d by simp
      from c have "\<exists>k. i \<le> k \<and> k < length cur \<and> k \<noteq> idx \<and> best' = cur ! k \<and> md' = dd k \<and>
              flt md' md \<and> flt md' tol \<and>
              (\<forall>j. i \<le> j \<and> j < length cur \<and> j \<noteq> idx \<and> flt (dd j) tol \<longrightarrow> \<not> flt (dd j) md')"
      proof
        assume a: "best' = cur ! i \<and> md' = dd i \<and>
             (\<forall>j. Suc i \<le> j \<and> j < length cur \<and> j \<noteq> idx \<longrightarrow> \<not> (flt (dd j) (dd i) \<and> flt (dd j) tol))"
        have "\<forall>j. i \<le> j \<and> j < length cur \<and> j \<noteq> idx \<and> flt (dd j) tol \<longrightarrow> \<not> flt (dd j) (dd i)"
        proof (intro allI impI)
          fix j assume j: "i \<le> j \<and> j < length cur \<and> j \<noteq> idx \<and> flt (dd j) tol"
          show "\<not> flt (dd j) (dd i)"
          proof (cases "j = i")
            case True then show ?thesis using flt_asym by blast
          next
            case False
            with j have "Suc i \<le> j" by auto
            with a j show ?thesis by blast
          qed
        qed
        with a True i False show ?thesis by (intro exI[of _ i]) simp
      next
        assume "\<exists>k. Suc i \<le> k \<and> k < length cur \<and> k \<noteq> idx \<and> best' = cur ! k \<and> md' = dd k \<and>
              flt md' (dd i) \<and> flt md' tol \<and>
              (\<forall>j. Suc i \<le> j \<and> j < length cur \<and> j \<noteq> idx \<and> flt (dd j) tol \<longrightarrow> \<not> flt (dd j) md')"
        then obtain k where k: "Suc i \<le> k" "k < length cur" "k \<noteq> idx" "best' = cur ! k" "md' = dd k"
              "flt md' (dd i)" "flt md' tol"
              "\<forall>j. Suc i \<le> j \<and> j < length cur \<and> j \<noteq> idx \<and> flt (dd j) tol \<longrightarrow> \<not> flt (dd j) md'"
          by blast
        have m: "flt md' md" using k(6) True flt_trans by blast
        have "\<forall>j. i \<le> j \<and> j < length cur \<and> j \<noteq> idx \<and> flt (dd j) tol \<longrightarrow> \<not> flt (dd j) md'"
        proof (intro allI impI)
          fix j assume j: "i \<le> j \<and> j < length cur \<and> j \<noteq> idx \<and> flt (dd j) tol"
          show "\<not> flt (dd j) md'"
          proof (cases "j = i")
            case True then show ?thesis using k(6) flt_asym by blast
          next
            case False
            with j have "Suc i \<le> j" by auto
            with k(8) j show ?thesis by blast
          qed
        qed
        with k m show ?thesis by (intro exI[of _ k]) simp
      qed
      with run show ?thesis by blast
    next
      case nc: False
      from Suc.hyps(1)[OF n le, of best md] obtain best' md' where
        r: "snap_scan lib geom (Num tol) idx (Suc i) (drop (Suc i) cur) (best, md) = Inr (best', md')" and
        c: "(best' = best \<and> md' = md \<and>
             (\<forall>j. Suc i \<le> j \<and> j < length cur \<and> j \<noteq> idx \<longrightarrow> \<not> (flt (dd j) md \<and> flt (dd j) tol))) \<or>
            (\<exists>k. Suc i \<le> k \<and> k < length cur \<and> k \<noteq> idx \<and> best' = cur ! k \<and> md' = dd k \<and>
              flt md' md \<and> flt md' tol \<and>
              (\<forall>j. Suc i \<le> j \<and> j < length cur \<and> j \<noteq> idx \<and> flt (dd j) tol \<longrightarrow> \<not> flt (dd j) md'))"
        by blast
      have run: "snap_scan lib geom (Num tol) idx i (drop i cur) (best, md) = Inr (best', md')"
        unfolding dr using False nc r d by auto
      from c have "(best' = best \<and> md' = md \<and>
             (\<forall>j. i \<le> j \<and> j < length cur \<and> j \<noteq> idx \<longrightarrow> \<not> (flt (dd j) md \<and> flt (dd j) tol))) \<or>
            (\<exists>k. i \<le> k \<and> k < length cur \<and> k \<noteq> idx \<and> best' = cur ! k \<and> md' = dd k \<and>
              flt md' md \<and> flt md' tol \<and>
              (\<forall>j. i \<le> j \<and> j < length cur \<and> j \<noteq> idx \<and> flt (dd j) tol \<longrightarrow> \<not> flt (dd j) md'))"
      proof
        assume a: "best' = best \<and> md' = md \<and>
             (\<forall>j. Suc i \<le> j \<and> j < length cur \<and> j \<noteq> idx \<longrightarrow> \<not> (flt (dd j) md \<and> flt (dd j) tol))"
        have "\<forall>j. i \<le> j \<and> j < length cur \<and> j \<noteq> idx \<longrightarrow> \<not> (flt (dd j) md \<and> flt (dd j) tol)"
        proof (intro allI impI)
          fix j assume j: "i \<le> j \<and> j < length cur \<and> j \<noteq> idx"
          show "\<not> (flt (dd j) md \<and> flt (dd j) tol)"
          proof (cases "j = i")
            case True then show ?thesis using nc by simp
          next
            case False
            with j have "Suc i \<le> j" by auto
            with a j show ?thesis by blast
          qed
        qed
        with a show ?thesis by blast
      next
        assume "\<exists>k. Suc i \<le> k \<and> k < length cur \<and> k \<noteq> idx \<and> best' = cur ! k \<and> md' = dd k \<and>
              flt md' md \<and> flt md' tol \<and>
              (\<forall>j. Suc i \<le> j \<and> j < length cur \<and> j \<noteq> idx \<and> flt (dd j) tol \<longrightarrow> \<not> flt (dd j) md')"
        then obtain k where k: "Suc i \<le> k" "k < length cur" "k \<noteq> idx" "best' = cur ! k" "md' = dd k"
              "flt md' md" "flt md' tol"
              "\<forall>j. Suc i \<le> j \<and> j < length cur \<and> j \<noteq> idx \<and> flt (dd j) tol \<longrightarrow> \<not> flt (dd j) md'"
          by blast
        have "\<forall>j. i \<le> j \<and> j < length cur \<and> j \<noteq> idx \<and> flt (dd j) tol \<longrightarrow> \<not> flt (dd j) md'"
        proof (intro allI impI)
          fix j assume j: "i \<le> j \<and> j < length cur \<and> j \<noteq> idx \<and> flt (dd j) tol"
          show "\<not> flt (dd j) md'"
          proof (cases "j = i")
            case True
            with j nc have "\<not> flt (dd i) md" by simp
            with k(6) True show ?thesis using flt_trans by blast
          next
            case False
            with j have "Suc i \<le> j" by auto
            with k(8) j show ?thesis by blast
          qed
        qed
        with k have "\<exists>k. i \<le> k \<and> k < length cur \<and> k \<noteq> idx \<and> best' = cur ! k \<and> md' = dd k \<and>
              flt md' md \<and> flt md' tol \<and>
              (\<forall>j. i \<le> j \<and> j < length cur \<and> j \<noteq> idx \<and> flt (dd j) tol \<longrightarrow> \<not> flt (dd j) md')"
          by (intro exI[of _ k]) simp
        then show ?thesis by blast
      qed
      with run show ?thesis by blast
    qed
  qed
qed

lemma apply_fix_snap_unfold:
  assumes idx: "find_index lib (split_on (CHR ''-'') eid) = Inr (int idx)"
    and inb: "idx < length (current_geometries e)"
    and live: "current_geometries e ! idx = Some geom"
    and ft: "upper lib ftype = ''SNAP''"
  shows "apply_fix lib e eid ftype params =
     (case snap_scan lib geom (params_get params ''tolerance'' (Num (Float 0.5))) idx 0
             (current_geometries e) (None, PosInf) of
        Inl ex \<Rightarrow> (Some \<lparr>success = False, message = str_exn ex\<rparr>, e)
      | Inr st \<Rightarrow>
          (case fst st of
             None \<Rightarrow> (Some \<lparr>success = False, message = ''No geometry found within snap tolerance''\<rparr>, e)
           | Some target \<Rightarrow>
               if is_empty target then
                 (Some \<lparr>success = False, message = ''No geometry found within snap tolerance''\<rparr>, e)
               else
                 (case snap lib geom target (params_get params ''tolerance'' (Num (Float 0.5))) of
                    Inl ex \<Rightarrow> (Some \<lparr>success = False, message = str_exn ex\<rparr>, e)
                  | Inr snapped_geom \<Rightarrow>
                      (Some \<lparr>success = True,
                             message = ''Snapped to nearest geometry (dist: '' @
                                       format_fixed lib 4 (snd st) @ '')''\<rparr>,
                       e\<lparr>current_geometries := (current_geometries e)[idx := Some snapped_geom],
                         applied_fixes := applied_fixes e @
                           [\<lparr>error_id = eid, fix_type = ftype, original = wkt lib geom,
                             result = ''Snapped to nearest geometry (dist: '' @
                                      format_fixed lib 4 (snd st) @ '')'',
                             timestamp = ''now''\<rparr>]\<rparr>))))"
proof -
  have not_bad: "\<not> (int idx = - 1 \<or> int (length (current_geometries e)) \<le> int idx)"
    using inb by simp
  show ?thesis
    unfolding apply_fix_def apply_fix_body_def Let_def idx
    apply (simp only: sum.case not_bad if_False nat_int live option.case)
    apply (simp only: dispatch_def ft if_True snap_fix_def Let_def no_snap_def)
    apply (auto split: sum.splits option.splits prod.splits)
    done
qed


text \<open>
  C5, as amended. Take an in-bounds resolved index whose slot holds a geometry, the fix
  type SNAP, a tolerance that is a number (0.5 unless the parameter \<open>tolerance\<close> overrides
  it), and let every distance call from the target to another slot return. When no other
  slot is at a distance strictly below the tolerance, the call fails with
  \<open>No geometry found within snap tolerance\<close> and changes nothing. Otherwise the strategy
  settles on another slot \<open>k\<close> whose distance is strictly below the tolerance and which no
  other slot undercuts; when that slot holds a non-empty geometry, the target slot is
  replaced by the library's snap of the target to it with the tolerance and one record is
  logged, and the call fails only if the slot is None or empty or the snap raises.
\<close>

theorem snap_nearest_below_tolerance:
  assumes idx: "find_index lib (split_on (CHR ''-'') eid) = Inr (int idx)"
    and inb: "idx < length (current_geometries e)"
    and live: "current_geometries e ! idx = Some geom"
    and ft: "upper lib ftype = ''SNAP''"
    and tol: "params_get params ''tolerance'' (Num (Float 0.5)) = Num tol"
    and dist: "\<forall>j<length (current_geometries e). j \<noteq> idx \<longrightarrow>
                 distance lib geom (current_geometries e ! j) = Inr (dd j)"
  shows "((\<forall>j<length (current_geometries e). j \<noteq> idx \<longrightarrow> \<not> flt (dd j) tol) \<longrightarrow>
            apply_fix lib e eid ftype params =
              (Some \<lparr>success = False, message = ''No geometry found within snap tolerance''\<rparr>, e)) \<and>
         ((\<exists>j<length (current_geometries e). j \<noteq> idx \<and> flt (dd j) tol) \<longrightarrow>
            (\<exists>k<length (current_geometries e). k \<noteq> idx \<and> flt (dd k) tol \<and>
               (\<forall>j<length (current_geometries e). j \<noteq> idx \<longrightarrow> \<not> flt (dd j) (dd k)) \<and>
               apply_fix lib e eid ftype params =
                 (case current_geometries e ! k of
                    None \<Rightarrow>
                      (Some \<lparr>success = False, message = ''No geometry found within snap tolerance''\<rparr>, e)
                  | Some target \<Rightarrow>
                      if is_empty target then
                        (Some \<lparr>success = False, message = ''No geometry found within snap tolerance''\<rparr>, e)
                      else
                        (case snap lib geom target (Num tol) of
                           Inl ex \<Rightarrow> (Some \<lparr>success = False, message = str_exn ex\<rparr>, e)
                         | Inr snapped_geom \<Rightarrow>
                             (Some \<lparr>success = True,
                                    message = ''Snapped to nearest geometry (dist: '' @
                                              format_fixed lib 4 (dd k) @ '')''\<rparr>,
                              e\<lparr>current_geometries := (current_geometries e)[idx := Some snapped_geom],
                                applied_fixes := applied_fixes e @
                                  [\<lparr>error_id = eid, fix_type = ftype, original = wkt lib geom,
                                    result = ''Snapped to nearest geometry (dist: '' @
                                             format_fixed lib 4 (dd k) @ '')'',
                                    timestamp = ''now''\<rparr>]\<rparr>)))))"
proof -
  from snap_scan_spec[OF dist, of 0 tol None PosInf] obtain best' md' where
    run: "snap_scan lib geom (Num tol) idx 0 (current_geometries e) (None, PosInf) = Inr (best', md')" and
    c: "(best' = None \<and> md' = PosInf \<and>
          (\<forall>j. 0 \<le> j \<and> j < length (current_geometries e) \<and> j \<noteq> idx \<longrightarrow> \<not> (flt (dd j) PosInf \<and> flt (dd j) tol))) \<or>
        (\<exists>k. 0 \<le> k \<and> k < length (current_geometries e) \<and> k \<noteq> idx \<and> best' = (current_geometries e) ! k \<and> md' = dd k \<and>
              flt md' PosInf \<and> flt md' tol \<and>
              (\<forall>j. 0 \<le> j \<and> j < length (current_geometries e) \<and> j \<noteq> idx \<and> flt (dd j) tol \<longrightarrow> \<not> flt (dd j) md'))"
    by auto
  note unfold = apply_fix_snap_unfold[OF idx inb live ft, of params, unfolded tol run sum.case fst_conv snd_conv]
  have none: "(\<forall>j<length (current_geometries e). j \<noteq> idx \<longrightarrow> \<not> flt (dd j) tol) \<longrightarrow>
            apply_fix lib e eid ftype params =
              (Some \<lparr>success = False, message = ''No geometry found within snap tolerance''\<rparr>, e)"
  proof
    assume no: "\<forall>j<length (current_geometries e). j \<noteq> idx \<longrightarrow> \<not> flt (dd j) tol"
    with c have "best' = None" by auto
    with unfold show "apply_fix lib e eid ftype params =
              (Some \<lparr>success = False, message = ''No geometry found within snap tolerance''\<rparr>, e)"
      by simp
  qed
  have some: "(\<exists>j<length (current_geometries e). j \<noteq> idx \<and> flt (dd j) tol) \<longrightarrow>
            (\<exists>k<length (current_geometries e). k \<noteq> idx \<and> flt (dd k) tol \<and>
               (\<forall>j<length (current_geometries e). j \<noteq> idx \<longrightarrow> \<not> flt (dd j) (dd k)) \<and> best' = (current_geometries e) ! k \<and> md' = dd k)"
  proof
    assume "\<exists>j<length (current_geometries e). j \<noteq> idx \<and> flt (dd j) tol"
    then obtain j where j: "j < length (current_geometries e)" "j \<noteq> idx" "flt (dd j) tol" by blast
    then have "flt (dd j) PosInf" using flt_PosInf by blast
    with j c obtain k where k: "k < length (current_geometries e)" "k \<noteq> idx" "best' = (current_geometries e) ! k" "md' = dd k"
      "flt md' tol"
      "\<forall>j. 0 \<le> j \<and> j < length (current_geometries e) \<and> j \<noteq> idx \<and> flt (dd j) tol \<longrightarrow> \<not> flt (dd j) md'"
      by auto
    have "\<forall>j<length (current_geometries e). j \<noteq> idx \<longrightarrow> \<not> flt (dd j) (dd k)"
    proof (intro allI impI)
      fix j assume a: "j < length (current_geometries e)" "j \<noteq> idx"
      show "\<not> flt (dd j) (dd k)"
      proof
        assume f: "flt (dd j) (dd k)"
        with k(4,5) have "flt (dd j) tol" using flt_trans by blast
        with k(6) a have "\<not> flt (dd j) md'" by simp
        with f k(4) show False by simp
      qed
    qed
    with k show "\<exists>k<length (current_geometries e). k \<noteq> idx \<and> flt (dd k) tol \<and>
               (\<forall>j<length (current_geometries e). j \<noteq> idx \<longrightarrow> \<not> flt (dd j) (dd k)) \<and> best' = (current_geometries e) ! k \<and> md' = dd k"
      by (intro exI[of _ k]) simp
  qed
  show ?thesis
  proof (intro conjI)
    show "(\<forall>j<length (current_geometries e). j \<noteq> idx \<longrightarrow> \<not> flt (dd j) tol) \<longrightarrow>
            apply_fix lib e eid ftype params =
              (Some \<lparr>success = False, message = ''No geometry found within snap tolerance''\<rparr>, e)"
      by (rule none)
  next
    show "(\<exists>j<length (current_geometries e). j \<noteq> idx \<and> flt (dd j) tol) \<longrightarrow>
            (\<exists>k<length (current_geometries e). k \<noteq> idx \<and> flt (dd k) tol \<and>
               (\<forall>j<length (current_geometries e). j \<noteq> idx \<longrightarrow> \<not> flt (dd j) (dd k)) \<and>
               apply_fix lib e eid ftype params =
                 (case (current_geometries e) ! k of
                    None \<Rightarrow>
                      (Some \<lparr>success = False, message = ''No geometry found within snap tolerance''\<rparr>, e)
                  | Some target \<Rightarrow>
                      if is_empty target then
                        (Some \<lparr>success = False, message = ''No geometry found within snap tolerance''\<rparr>, e)
                      else
                        (case snap lib geom target (Num tol) of
                           Inl ex \<Rightarrow> (Some \<lparr>success = False, message = str_exn ex\<rparr>, e)
                         | Inr snapped_geom \<Rightarrow>
                             (Some \<lparr>success = True,
                                    message = ''Snapped to nearest geometry (dist: '' @
                                              format_fixed lib 4 (dd k) @ '')''\<rparr>,
                              e\<lparr>current_geometries := (current_geometries e)[idx := Some snapped_geom],
                                applied_fixes := applied_fixes e @
                                  [\<lparr>error_id = eid, fix_type = ftype, original = wkt lib geom,
                                    result = ''Snapped to nearest geometry (dist: '' @
                                             format_fixed lib 4 (dd k) @ '')'',
                                    timestamp = ''now''\<rparr>]\<rparr>))))"
    proof
      assume "\<exists>j<length (current_geometries e). j \<noteq> idx \<and> flt (dd j) tol"
      with some obtain k where k: "k < length (current_geometries e)" "k \<noteq> idx" "flt (dd k) tol"
        "\<forall>j<length (current_geometries e). j \<noteq> idx \<longrightarrow> \<not> flt (dd j) (dd k)" "best' = (current_geometries e) ! k" "md' = dd k"
        by blast
      show "\<exists>k<length (current_geometries e). k \<noteq> idx \<and> flt (dd k) tol \<and>
               (\<forall>j<length (current_geometries e). j \<noteq> idx \<longrightarrow> \<not> flt (dd j) (dd k)) \<and>
               apply_fix lib e eid ftype params =
                 (case (current_geometries e) ! k of
                    None \<Rightarrow>
                      (Some \<lparr>success = False, message = ''No geometry found within snap tolerance''\<rparr>, e)
                  | Some target \<Rightarrow>
                      if is_empty target then
                        (Some \<lparr>success = False, message = ''No geometry found within snap tolerance''\<rparr>, e)
                      else
                        (case snap lib geom target (Num tol) of
                           Inl ex \<Rightarrow> (Some \<lparr>success = False, message = str_exn ex\<rparr>, e)
                         | Inr snapped_geom \<Rightarrow>
                             (Some \<lparr>success = True,
                                    message = ''Snapped to nearest geometry (dist: '' @
                                              format_fixed lib 4 (dd k) @ '')''\<rparr>,
                              e\<lparr>current_geometries := (current_geometries e)[idx := Some snapped_geom],
                                applied_fixes := applied_fixes e @
                                  [\<lparr>error_id = eid, fix_type = ftype, original = wkt lib geom,
                                    result = ''Snapped to nearest geometry (dist: '' @
                                             format_fixed lib 4 (dd k) @ '')'',
                                    timestamp = ''now''\<rparr>]\<rparr>)))"
        apply (rule exI[of _ k])
        apply (intro conjI)
            apply (rule k(1))
           apply (rule k(2))
          apply (rule k(3))
         apply (rule k(4))
        apply (simp only: unfold k(5)[symmetric] k(6)[symmetric])
        done
    qed
  qed
qed

lemma upper_SNAP: "upper lib ''SNAP'' = ''SNAP''"
  by (simp add: upper_def is_ascii_def ascii_upper_def upper_char_def)

lemma dist_point_near_b: "distance planar (Point [(9, 0)]) (Some line_b) = Inr (Float 1)"
  by (simp add: planar_def planar_distance_def line_b_def sq_dist_def nearest_on_segment_def Let_def)

lemma snap_point_near_b: "snap planar (Point [(9, 0)]) line_b (Num (Float 2)) = Inr (Point [(10, 0)])"
  by (simp add: planar_def planar_snap_def line_b_def sq_dist_def)

lemma dist_half_line: "distance planar (Point [(0, 0)]) (Some half_line) = Inr (Float (1 / 2))"
  by (simp add: planar_def planar_distance_def half_line_def sq_dist_def nearest_on_segment_def Let_def
      real_sqrt_divide power2_eq_square)


lemma scan_point_near_b:
  "\<forall>j<length (current_geometries point_near_b). j \<noteq> 0 \<longrightarrow>
     distance planar (Point [(9, 0)]) (current_geometries point_near_b ! j) = Inr (Float 1)"
  by (simp add: point_near_b_def less_Suc_eq dist_point_near_b numeral_2_eq_2)

theorem snap_nearest_below_tolerance_witness:
  "distance planar (Point [(9, 0)]) (Some line_b) = Inr (Float 1) \<and> flt (Float 1) (Float 2) \<and>
   fst (apply_fix planar point_near_b ''0'' ''SNAP'' (Some [(''tolerance'', Num (Float 2))])) =
     Some \<lparr>success = True,
           message = ''Snapped to nearest geometry (dist: '' @ format_fixed planar 4 (Float 1) @ '')''\<rparr> \<and>
   current_geometries (snd (apply_fix planar point_near_b ''0'' ''SNAP''
       (Some [(''tolerance'', Num (Float 2))]))) = [Some (Point [(10, 0)]), Some line_b]"
proof -
  have idx: "find_index planar (split_on (CHR ''-'') ''0'') = Inr (int 0)" by (simp add: find_index_0)
  have inb: "0 < length (current_geometries point_near_b)" by (simp add: point_near_b_def)
  have live: "current_geometries point_near_b ! 0 = Some (Point [(9, 0)])"
    by (simp add: point_near_b_def)
  have tol: "params_get (Some [(''tolerance'', Num (Float 2))]) ''tolerance'' (Num (Float 0.5)) =
             Num (Float 2)" by simp
  note t = snap_nearest_below_tolerance[OF idx inb live upper_SNAP tol, of "\<lambda>j. Float 1",
             OF scan_point_near_b]
  have ex: "\<exists>j<length (current_geometries point_near_b). j \<noteq> 0 \<and> flt (Float 1) (Float 2)"
    by (intro exI[of _ 1]) (simp add: point_near_b_def)
  with t obtain k where k: "k < length (current_geometries point_near_b)" "k \<noteq> 0" and
    run: "apply_fix planar point_near_b ''0'' ''SNAP'' (Some [(''tolerance'', Num (Float 2))]) =
           (case current_geometries point_near_b ! k of
              None \<Rightarrow>
                (Some \<lparr>success = False, message = ''No geometry found within snap tolerance''\<rparr>,
                 point_near_b)
            | Some target \<Rightarrow>
                if is_empty target then
                  (Some \<lparr>success = False, message = ''No geometry found within snap tolerance''\<rparr>,
                   point_near_b)
                else
                  (case snap planar (Point [(9, 0)]) target (Num (Float 2)) of
                     Inl ex \<Rightarrow> (Some \<lparr>success = False, message = str_exn ex\<rparr>, point_near_b)
                   | Inr snapped_geom \<Rightarrow>
                       (Some \<lparr>success = True,
                              message = ''Snapped to nearest geometry (dist: '' @
                                        format_fixed planar 4 (Float 1) @ '')''\<rparr>,
                        point_near_b\<lparr>current_geometries :=
                            (current_geometries point_near_b)[0 := Some snapped_geom],
                          applied_fixes := applied_fixes point_near_b @
                            [\<lparr>error_id = ''0'', fix_type = ''SNAP'',
                              original = wkt planar (Point [(9, 0)]),
                              result = ''Snapped to nearest geometry (dist: '' @
                                       format_fixed planar 4 (Float 1) @ '')'',
                              timestamp = ''now''\<rparr>]\<rparr>)))"
    by blast
  from k have k1: "k = 1" by (simp add: point_near_b_def)
  have slot: "current_geometries point_near_b ! 1 = Some line_b" by (simp add: point_near_b_def)
  have ne: "\<not> is_empty line_b" by (simp add: line_b_def)
  have run': "apply_fix planar point_near_b ''0'' ''SNAP'' (Some [(''tolerance'', Num (Float 2))]) =
       (Some \<lparr>success = True,
              message = ''Snapped to nearest geometry (dist: '' @
                        format_fixed planar 4 (Float 1) @ '')''\<rparr>,
        point_near_b\<lparr>current_geometries :=
            (current_geometries point_near_b)[0 := Some (Point [(10, 0)])],
          applied_fixes := applied_fixes point_near_b @
            [\<lparr>error_id = ''0'', fix_type = ''SNAP'',
              original = wkt planar (Point [(9, 0)]),
              result = ''Snapped to nearest geometry (dist: '' @
                       format_fixed planar 4 (Float 1) @ '')'',
              timestamp = ''now''\<rparr>]\<rparr>)"
    unfolding run k1 slot by (simp only: option.case ne if_False snap_point_near_b sum.case)
  show ?thesis
    unfolding run' by (simp add: dist_point_near_b) (simp add: point_near_b_def)
qed

lemma half_line_not_empty: "\<not> is_empty half_line" by (simp add: half_line_def)

text \<open>
  C5 as stated fails at the boundary: a line exactly 0.5 (the default tolerance)
  from the target point lies within the tolerance, as the connectivity test of the
  diagnostics counts it, and yet SNAP finds no geometry.
\<close>

theorem snap_at_tolerance_counterexample:
  "distance planar (Point [(0, 0)]) (Some half_line) = Inr (Float (1 / 2)) \<and>
   fle (Float (1 / 2)) (Float TOLERANCE) \<and>
   is_connected planar
     \<lparr>ep_pt = Point [(0, 0)], ep_line_idx = 0, ep_line_no = 1, ep_loc = ''start'', ep_coord = (0, 0)\<rparr>
     TOLERANCE [\<lparr>item_id = 1, line_no = 2, item_geom = Some half_line\<rparr>] = Inr True \<and>
   apply_fix planar point_at_tolerance ''0'' ''SNAP'' None =
     (Some \<lparr>success = False, message = ''No geometry found within snap tolerance''\<rparr>,
      point_at_tolerance)"
proof -
  have idx: "find_index planar (split_on (CHR ''-'') ''0'') = Inr (int 0)" by (simp add: find_index_0)
  have inb: "0 < length (current_geometries point_at_tolerance)" by (simp add: point_at_tolerance_def)
  have live: "current_geometries point_at_tolerance ! 0 = Some (Point [(0, 0)])"
    by (simp add: point_at_tolerance_def)
  have scan: "snap_scan planar (Point [(0, 0)]) (Num (Float (1 / 2))) 0 0
                (current_geometries point_at_tolerance) (None, PosInf) = Inr (None, PosInf)"
    by (simp add: point_at_tolerance_def dist_half_line)
  have "apply_fix planar point_at_tolerance ''0'' ''SNAP'' None =
     (Some \<lparr>success = False, message = ''No geometry found within snap tolerance''\<rparr>,
      point_at_tolerance)"
    unfolding apply_fix_snap_unfold[OF idx inb live upper_SNAP, of None]
    by (simp add: scan)
  then show ?thesis
    by (simp add: dist_half_line TOLERANCE_def half_line_not_empty)
qed

text \<open>
  DELETE on a slot that holds a geometry: the call succeeds, the slot becomes None, the
  export list is the one of the other slots, and the log grows by one.
\<close>

lemma delete_live_slot:
  assumes idx: "find_index lib (split_on (CHR ''-'') eid) = Inr (int idx)"
    and inb: "idx < length (current_geometries e)"
    and live: "current_geometries e ! idx = Some geom"
    and ft: "upper lib ftype = ''DELETE''"
  shows "apply_fix lib e eid ftype params =
           (Some \<lparr>success = True, message = ''Deleted geometry''\<rparr>,
            e\<lparr>current_geometries := (current_geometries e)[idx := None],
              applied_fixes := applied_fixes e @
                [\<lparr>error_id = eid, fix_type = ftype, original = wkt lib geom,
                  result = ''Deleted geometry'', timestamp = ''now''\<rparr>]\<rparr>)"
    and "get_geometry (snd (apply_fix lib e eid ftype params)) (int idx) = None"
    and "valid_geoms (snd (apply_fix lib e eid ftype params)) =
           [g. Some g \<leftarrow> take idx (current_geometries e) @ drop (Suc idx) (current_geometries e),
               \<not> is_empty g]"
    and "length (applied_fixes (snd (apply_fix lib e eid ftype params))) =
           length (applied_fixes e) + 1"
proof -
  have not_bad: "\<not> (int idx = - 1 \<or> int (length (current_geometries e)) \<le> int idx)"
    using inb by simp
  show run: "apply_fix lib e eid ftype params =
           (Some \<lparr>success = True, message = ''Deleted geometry''\<rparr>,
            e\<lparr>current_geometries := (current_geometries e)[idx := None],
              applied_fixes := applied_fixes e @
                [\<lparr>error_id = eid, fix_type = ftype, original = wkt lib geom,
                  result = ''Deleted geometry'', timestamp = ''now''\<rparr>]\<rparr>)"
    unfolding apply_fix_def apply_fix_body_def Let_def idx
    apply (simp only: sum.case not_bad if_False nat_int live option.case)
    apply (simp add: dispatch_def ft)
    done
  show "get_geometry (snd (apply_fix lib e eid ftype params)) (int idx) = None"
    unfolding run using inb by (simp add: get_geometry_def)
  have "(current_geometries e)[idx := None] =
          take idx (current_geometries e) @ None # drop (Suc idx) (current_geometries e)"
    using inb by (simp add: upd_conv_take_nth_drop)
  then show "valid_geoms (snd (apply_fix lib e eid ftype params)) =
           [g. Some g \<leftarrow> take idx (current_geometries e) @ drop (Suc idx) (current_geometries e),
               \<not> is_empty g]"
    unfolding run by (simp add: valid_geoms_eq)
  show "length (applied_fixes (snd (apply_fix lib e eid ftype params))) =
           length (applied_fixes e) + 1"
    unfolding run by simp
qed

text \<open>
  The dangle check against its statement: with the ids of the entries equal to their
  positions (as the loader numbers them) and every distance call returning, the check
  returns one finding for each endpoint, in order, that has no other entry within the
  tolerance and whose owner is not a LineString ring.
\<close>

lemma is_connected_char:
  assumes "\<forall>other \<in> set rest. \<forall>g. item_geom other = Some g \<longrightarrow>
             (\<exists>d. distance lib (ep_pt ep) (Some g) = Inr d)"
  shows "is_connected lib ep tolerance rest = Inr (within_tolerance lib rest tolerance ep)"
  using assms
proof (induction rest)
  case Nil
  show ?case by (simp add: within_tolerance_def)
next
  case (Cons other rest)
  then have ih: "is_connected lib ep tolerance rest = Inr (within_tolerance lib rest tolerance ep)"
    by simp
  show ?case
  proof (cases "item_geom other")
    case None
    then show ?thesis using ih by (simp add: within_tolerance_def)
  next
    case (Some g)
    with Cons.prems obtain d where d: "distance lib (ep_pt ep) (Some g) = Inr d" by auto
    show ?thesis using ih Some d by (simp add: within_tolerance_def)
  qed
qed

lemma endpoint_owner:
  assumes "ep \<in> set (collect_endpoints lines_data)"
  shows "\<exists>it \<in> set lines_data. ep_line_idx ep = item_id it \<and> ep_line_no ep = line_no it \<and>
           (ep_loc ep = ''start'' \<or> ep_loc ep = ''end'') \<and> (\<exists>g. item_geom it = Some g)"
proof -
  from assms obtain it where it: "it \<in> set lines_data" "ep \<in> set (item_endpoints it)"
    by (auto simp: collect_endpoints_def)
  then obtain g where g: "item_geom it = Some g"
    by (cases "item_geom it") (auto simp: item_endpoints_def)
  from it(2) g obtain coords where "ep \<in> set (part_endpoints (item_id it) (line_no it) coords)"
    by (auto simp: item_endpoints_def split: if_splits)
  then have "ep_line_idx ep = item_id it \<and> ep_line_no ep = line_no it \<and>
             (ep_loc ep = ''start'' \<or> ep_loc ep = ''end'')"
    by (auto simp: part_endpoints_def split: if_splits)
  with it(1) g show ?thesis by blast
qed

lemma owner_is_ring_char:
  assumes ids: "\<forall>i<length lines_data. item_id (lines_data ! i) = i"
    and ep: "ep \<in> set (collect_endpoints lines_data)"
  shows "owner_is_ring lib lines_data (ep_line_idx ep) = Inr (owner_ring lib lines_data ep)"
proof -
  from endpoint_owner[OF ep] obtain it g where
    it: "it \<in> set lines_data" "ep_line_idx ep = item_id it" "item_geom it = Some g" by blast
  from it(1) obtain i where i: "i < length lines_data" "lines_data ! i = it"
    by (auto simp: in_set_conv_nth)
  with ids have "item_id it = i" by auto
  with it i have "ep_line_idx ep < length lines_data" "item_geom (lines_data ! ep_line_idx ep) = Some g"
    by auto
  then show ?thesis
    by (cases g) (simp_all add: owner_is_ring_def owner_ring_def)
qed

lemma map_exn_all: "\<forall>x \<in> set xs. f x = Inr (g x) \<Longrightarrow> map_exn f xs = Inr (map g xs)"
  by (induction xs) auto

lemma concat_map_if: "concat (map (\<lambda>x. if P x then [h x] else []) xs) = map h (filter P xs)"
  by (induction xs) auto

lemma find_dangles_char:
  assumes ids: "\<forall>i<length lines_data. item_id (lines_data ! i) = i"
    and dist: "\<forall>ep \<in> set (collect_endpoints lines_data). \<forall>other \<in> set lines_data.
                 \<forall>g. item_geom other = Some g \<longrightarrow> (\<exists>d. distance lib (ep_pt ep) (Some g) = Inr d)"
  shows "find_dangles lib lines_data tolerance =
           Inr (map (dangle_finding lib tolerance)
                  (filter (\<lambda>ep. \<not> within_tolerance lib lines_data tolerance ep \<and>
                                \<not> owner_ring lib lines_data ep)
                     (collect_endpoints lines_data)))"
proof -
  have each: "\<forall>ep \<in> set (collect_endpoints lines_data).
          check_endpoint lib lines_data tolerance ep =
            Inr (if \<not> within_tolerance lib lines_data tolerance ep \<and> \<not> owner_ring lib lines_data ep
                 then [dangle_finding lib tolerance ep] else [])"
  proof
    fix ep assume ep: "ep \<in> set (collect_endpoints lines_data)"
    with dist have "\<forall>other \<in> set lines_data. \<forall>g. item_geom other = Some g \<longrightarrow>
                     (\<exists>d. distance lib (ep_pt ep) (Some g) = Inr d)" by blast
    from is_connected_char[OF this, of tolerance] owner_is_ring_char[OF ids ep, of lib]
    show "check_endpoint lib lines_data tolerance ep =
            Inr (if \<not> within_tolerance lib lines_data tolerance ep \<and> \<not> owner_ring lib lines_data ep
                 then [dangle_finding lib tolerance ep] else [])"
      by (simp add: check_endpoint_def)
  qed
  show ?thesis
    unfolding find_dangles_def map_exn_all[OF each]
    by (simp add: concat_map_if)
qed

lemma sqrt_100: "sqrt 100 = 10"
  using real_sqrt_abs[of 10] by simp

lemma endpoints_two_lines:
  "collect_endpoints two_lines_data =
     [\<lparr>ep_pt = Point [(0, 0)], ep_line_idx = 0, ep_line_no = 1, ep_loc = ''start'', ep_coord = (0, 0)\<rparr>,
      \<lparr>ep_pt = Point [(10, 0)], ep_line_idx = 0, ep_line_no = 1, ep_loc = ''end'', ep_coord = (10, 0)\<rparr>,
      \<lparr>ep_pt = Point [(10, 0)], ep_line_idx = 1, ep_line_no = 2, ep_loc = ''start'', ep_coord = (10, 0)\<rparr>,
      \<lparr>ep_pt = Point [(10, 10)], ep_line_idx = 1, ep_line_no = 2, ep_loc = ''end'', ep_coord = (10, 10)\<rparr>]"
  by (simp add: collect_endpoints_def two_lines_data_def item_endpoints_def part_endpoints_def
      line_a_def line_b_def)

lemma dist_a_start: "planar_distance (Point [(0, 0)]) (Some line_b) = Inr (Float 10)"
  by (simp add: planar_distance_def line_b_def sq_dist_def nearest_on_segment_def Let_def sqrt_100)

lemma dist_a_end: "planar_distance (Point [(10, 0)]) (Some line_b) = Inr (Float 0)"
  by (simp add: planar_distance_def line_b_def sq_dist_def nearest_on_segment_def Let_def)

lemma dist_b_start: "planar_distance (Point [(10, 0)]) (Some line_a) = Inr (Float 0)"
  by (simp add: planar_distance_def line_a_def sq_dist_def nearest_on_segment_def Let_def)

lemma dist_b_end: "planar_distance (Point [(10, 10)]) (Some line_a) = Inr (Float 10)"
  by (simp add: planar_distance_def line_a_def sq_dist_def nearest_on_segment_def Let_def sqrt_100)

lemma lines_not_empty: "\<not> is_empty line_a" "\<not> is_empty line_b"
  by (simp_all add: line_a_def line_b_def)

lemma lines_not_ring: "\<not> is_ring lib line_a" "\<not> is_ring lib line_b"
  by (simp_all add: is_ring_def line_a_def line_b_def)

lemma dangles_two_lines:
  "find_dangles (lib\<lparr>distance := planar_distance\<rparr>) two_lines_data TOLERANCE =
     Inr [dangle_finding (lib\<lparr>distance := planar_distance\<rparr>) TOLERANCE
            \<lparr>ep_pt = Point [(0, 0)], ep_line_idx = 0, ep_line_no = 1, ep_loc = ''start'',
              ep_coord = (0, 0)\<rparr>,
          dangle_finding (lib\<lparr>distance := planar_distance\<rparr>) TOLERANCE
            \<lparr>ep_pt = Point [(10, 10)], ep_line_idx = 1, ep_line_no = 2, ep_loc = ''end'',
              ep_coord = (10, 10)\<rparr>]"
proof -
  have c1: "check_endpoint (lib\<lparr>distance := planar_distance\<rparr>) two_lines_data TOLERANCE
      \<lparr>ep_pt = Point [(0, 0)], ep_line_idx = 0, ep_line_no = 1, ep_loc = ''start'', ep_coord = (0, 0)\<rparr> =
      Inr [dangle_finding (lib\<lparr>distance := planar_distance\<rparr>) TOLERANCE
            \<lparr>ep_pt = Point [(0, 0)], ep_line_idx = 0, ep_line_no = 1, ep_loc = ''start'',
              ep_coord = (0, 0)\<rparr>]"
    by (simp add: check_endpoint_def two_lines_data_def lines_not_empty dist_a_start TOLERANCE_def
        owner_is_ring_def lines_not_ring line_a_def[symmetric] split: geometry.splits)
  have c2: "check_endpoint (lib\<lparr>distance := planar_distance\<rparr>) two_lines_data TOLERANCE
      \<lparr>ep_pt = Point [(10, 0)], ep_line_idx = 0, ep_line_no = 1, ep_loc = ''end'', ep_coord = (10, 0)\<rparr> =
      Inr []"
    by (simp add: check_endpoint_def two_lines_data_def lines_not_empty dist_a_end TOLERANCE_def)
  have c3: "check_endpoint (lib\<lparr>distance := planar_distance\<rparr>) two_lines_data TOLERANCE
      \<lparr>ep_pt = Point [(10, 0)], ep_line_idx = 1, ep_line_no = 2, ep_loc = ''start'', ep_coord = (10, 0)\<rparr> =
      Inr []"
    by (simp add: check_endpoint_def two_lines_data_def lines_not_empty dist_b_start TOLERANCE_def)
  have c4: "check_endpoint (lib\<lparr>distance := planar_distance\<rparr>) two_lines_data TOLERANCE
      \<lparr>ep_pt = Point [(10, 10)], ep_line_idx = 1, ep_line_no = 2, ep_loc = ''end'', ep_coord = (10, 10)\<rparr> =
      Inr [dangle_finding (lib\<lparr>distance := planar_distance\<rparr>) TOLERANCE
            \<lparr>ep_pt = Point [(10, 10)], ep_line_idx = 1, ep_line_no = 2, ep_loc = ''end'',
              ep_coord = (10, 10)\<rparr>]"
    by (simp add: check_endpoint_def two_lines_data_def lines_not_empty dist_b_end TOLERANCE_def
        owner_is_ring_def lines_not_ring line_b_def[symmetric] split: geometry.splits)
  show ?thesis
    unfolding find_dangles_def endpoints_two_lines map_exn.simps c1 c2 c3 c4
    by simp
qed

lemma planar_distance_update: "planar\<lparr>distance := planar_distance\<rparr> = planar"
  by (simp add: planar_def)


lemma qa_load_two_lines: "qa_load planar two_lines_text = two_lines_data"
  unfolding qa_load_def split_text Let_def qa_load_loop.simps strip_a strip_b
  apply (simp only: ends_a ends_b if_True if_False list.distinct append_Nil append.simps last_a last_b
      wkt_loads_planar loads_a loads_b sum.case lines_not_empty not_False_eq_True refl)
  apply (simp add: two_lines_data_def)
  done

lemma closed_part_closed: "hd closed_part = last closed_part"
  by (simp add: closed_part_def)

text \<open>
  C4 as stated fails for a closed part of a multi-part line: the part is a
  self-closing ring, no other record exists, and both its endpoints are reported.
\<close>

theorem closed_part_dangle_counterexample:
  "hd closed_part = last closed_part \<and>
   find_dangles planar closed_part_data TOLERANCE =
     Inr [dangle_finding planar TOLERANCE
            \<lparr>ep_pt = Point [(0, 0)], ep_line_idx = 0, ep_line_no = 1, ep_loc = ''start'',
              ep_coord = (0, 0)\<rparr>,
          dangle_finding planar TOLERANCE
            \<lparr>ep_pt = Point [(0, 0)], ep_line_idx = 0, ep_line_no = 1, ep_loc = ''end'',
              ep_coord = (0, 0)\<rparr>]"
proof -
  have eps: "collect_endpoints closed_part_data =
     [\<lparr>ep_pt = Point [(0, 0)], ep_line_idx = 0, ep_line_no = 1, ep_loc = ''start'', ep_coord = (0, 0)\<rparr>,
      \<lparr>ep_pt = Point [(0, 0)], ep_line_idx = 0, ep_line_no = 1, ep_loc = ''end'', ep_coord = (0, 0)\<rparr>]"
    by (simp add: collect_endpoints_def closed_part_data_def item_endpoints_def part_endpoints_def
        closed_part_def)
  have chk: "check_endpoint planar closed_part_data TOLERANCE ep =
               Inr [dangle_finding planar TOLERANCE ep]" if "ep_line_idx ep = 0" for ep
    using that by (simp add: check_endpoint_def closed_part_data_def owner_is_ring_def)
  show ?thesis
    unfolding find_dangles_def eps map_exn.simps
    by (simp add: chk closed_part_closed)
qed


text \<open>
  C4, as amended. With the entries numbered by position and every distance call
  returning, an endpoint of a line part is reported as a dangle exactly when no other
  entry's non-empty geometry is at a distance of at most the tolerance from it and the
  owning entry is not a LineString that is a ring (closed and simple); the ring test looks
  at the owning entry, so a closed part of a MultiLineString is still reported. In
  particular, the statements \<open>LINESTRING(0 0, 10 0)\<close> and \<open>LINESTRING(10 0, 10 10)\<close> load
  to two entries, and with the Euclidean distance and the default tolerance 0.5 the check
  reports exactly two dangles, the start (0,0) of the first line and the end (10,10) of
  the second; the shared endpoint (10,0) is not reported.
\<close>

theorem dangle_check:
  "((\<forall>i<length lines_data. item_id (lines_data ! i) = i) \<and>
    (\<forall>ep \<in> set (collect_endpoints lines_data). \<forall>other \<in> set lines_data.
       \<forall>g. item_geom other = Some g \<longrightarrow> (\<exists>d. distance lib (ep_pt ep) (Some g) = Inr d)) \<longrightarrow>
    find_dangles lib lines_data tolerance =
      Inr (map (dangle_finding lib tolerance)
             (filter (\<lambda>ep. \<not> within_tolerance lib lines_data tolerance ep \<and>
                           \<not> owner_ring lib lines_data ep)
                (collect_endpoints lines_data)))) \<and>
   qa_load planar two_lines_text = two_lines_data \<and>
   find_dangles (lib\<lparr>distance := planar_distance\<rparr>) two_lines_data TOLERANCE =
     Inr [dangle_finding (lib\<lparr>distance := planar_distance\<rparr>) TOLERANCE
            \<lparr>ep_pt = Point [(0, 0)], ep_line_idx = 0, ep_line_no = 1, ep_loc = ''start'',
              ep_coord = (0, 0)\<rparr>,
          dangle_finding (lib\<lparr>distance := planar_distance\<rparr>) TOLERANCE
            \<lparr>ep_pt = Point [(10, 10)], ep_line_idx = 1, ep_line_no = 2, ep_loc = ''end'',
              ep_coord = (10, 10)\<rparr>]"
proof (intro conjI impI)
  assume "(\<forall>i<length lines_data. item_id (lines_data ! i) = i) \<and>
    (\<forall>ep \<in> set (collect_endpoints lines_data). \<forall>other \<in> set lines_data.
       \<forall>g. item_geom other = Some g \<longrightarrow> (\<exists>d. distance lib (ep_pt ep) (Some g) = Inr d))"
  then show "find_dangles lib lines_data tolerance =
      Inr (map (dangle_finding lib tolerance)
             (filter (\<lambda>ep. \<not> within_tolerance lib lines_data tolerance ep \<and>
                           \<not> owner_ring lib lines_data ep)
                (collect_endpoints lines_data)))"
    using find_dangles_char[of lines_data lib tolerance] by blast
next
  show "qa_load planar two_lines_text = two_lines_data" by (rule qa_load_two_lines)
next
  show "find_dangles (lib\<lparr>distance := planar_distance\<rparr>) two_lines_data TOLERANCE =
     Inr [dangle_finding (lib\<lparr>distance := planar_distance\<rparr>) TOLERANCE
            \<lparr>ep_pt = Point [(0, 0)], ep_line_idx = 0, ep_line_no = 1, ep_loc = ''start'',
              ep_coord = (0, 0)\<rparr>,
          dangle_finding (lib\<lparr>distance := planar_distance\<rparr>) TOLERANCE
            \<lparr>ep_pt = Point [(10, 10)], ep_line_idx = 1, ep_line_no = 2, ep_loc = ''end'',
              ep_coord = (10, 10)\<rparr>]"
    by (rule dangles_two_lines)
qed

lemma two_lines_ids: "\<forall>i<length two_lines_data. item_id (two_lines_data ! i) = i"
  by (simp add: two_lines_data_def less_Suc_eq numeral_2_eq_2)

lemma planar_point_line: "\<exists>d. distance planar (Point [p]) (Some (LineString cs)) = Inr d"
  by (simp add: planar_def planar_distance_def)

lemma two_lines_distances:
  "\<forall>ep \<in> set (collect_endpoints two_lines_data). \<forall>other \<in> set two_lines_data.
     \<forall>g. item_geom other = Some g \<longrightarrow> (\<exists>d. distance planar (ep_pt ep) (Some g) = Inr d)"
  unfolding endpoints_two_lines
  by (simp add: two_lines_data_def line_a_def line_b_def planar_point_line)

theorem dangle_check_witness:
  "find_dangles planar two_lines_data TOLERANCE =
     Inr (map (dangle_finding planar TOLERANCE)
            (filter (\<lambda>ep. \<not> within_tolerance planar two_lines_data TOLERANCE ep \<and>
                          \<not> owner_ring planar two_lines_data ep)
               (collect_endpoints two_lines_data))) \<and>
   find_dangles planar two_lines_data TOLERANCE =
     Inr [dangle_finding planar TOLERANCE
            \<lparr>ep_pt = Point [(0, 0)], ep_line_idx = 0, ep_line_no = 1, ep_loc = ''start'',
              ep_coord = (0, 0)\<rparr>,
          dangle_finding planar TOLERANCE
            \<lparr>ep_pt = Point [(10, 10)], ep_line_idx = 1, ep_line_no = 2, ep_loc = ''end'',
              ep_coord = (10, 10)\<rparr>] \<and>
   map finding_id
     [dangle_finding planar TOLERANCE
        \<lparr>ep_pt = Point [(0, 0)], ep_line_idx = 0, ep_line_no = 1, ep_loc = ''start'',
          ep_coord = (0, 0)\<rparr>,
      dangle_finding planar TOLERANCE
        \<lparr>ep_pt = Point [(10, 10)], ep_line_idx = 1, ep_line_no = 2, ep_loc = ''end'',
          ep_coord = (10, 10)\<rparr>] = [''dangle-1-start'', ''dangle-2-end'']"
proof -
  note t = dangle_check[of two_lines_data planar TOLERANCE, unfolded planar_distance_update]
  from t two_lines_ids two_lines_distances
  have a: "find_dangles planar two_lines_data TOLERANCE =
     Inr (map (dangle_finding planar TOLERANCE)
            (filter (\<lambda>ep. \<not> within_tolerance planar two_lines_data TOLERANCE ep \<and>
                          \<not> owner_ring planar two_lines_data ep)
               (collect_endpoints two_lines_data)))"
    by blast
  from t have b: "find_dangles planar two_lines_data TOLERANCE =
     Inr [dangle_finding planar TOLERANCE
            \<lparr>ep_pt = Point [(0, 0)], ep_line_idx = 0, ep_line_no = 1, ep_loc = ''start'',
              ep_coord = (0, 0)\<rparr>,
          dangle_finding planar TOLERANCE
            \<lparr>ep_pt = Point [(10, 10)], ep_line_idx = 1, ep_line_no = 2, ep_loc = ''end'',
              ep_coord = (10, 10)\<rparr>]"
    by blast
  have c: "map finding_id
     [dangle_finding planar TOLERANCE
        \<lparr>ep_pt = Point [(0, 0)], ep_line_idx = 0, ep_line_no = 1, ep_loc = ''start'',
          ep_coord = (0, 0)\<rparr>,
      dangle_finding planar TOLERANCE
        \<lparr>ep_pt = Point [(10, 10)], ep_line_idx = 1, ep_line_no = 2, ep_loc = ''end'',
          ep_coord = (10, 10)\<rparr>] = [''dangle-1-start'', ''dangle-2-end'']"
    by (simp add: dangle_finding_def str_nat.simps digit_chars_def)
  from a b c show ?thesis by blast
qed

text \<open>
  Finding ids and the index \<open>apply_fix\<close> reads from them: the decimal text of a number
  is a token of digits without a dash, and reads back as the number.
\<close>

lemma split_from_nosep: "sep \<notin> set a \<Longrightarrow> split_from sep cur a = [cur @ a]"
  by (induction a arbitrary: cur) auto

lemma split_from_append:
  "sep \<notin> set a \<Longrightarrow> split_from sep cur (a @ sep # b) = (cur @ a) # split_from sep [] b"
  by (induction a arbitrary: cur) auto

lemma digit_char_mem: "d < 10 \<Longrightarrow> digit_chars ! d \<in> set digit_chars"
proof -
  assume "d < 10"
  then have "d < length digit_chars" by (simp add: digit_chars_def)
  then show ?thesis by (rule nth_mem)
qed

lemma digit_val_nth: "d < 10 \<Longrightarrow> digit_val (digit_chars ! d) = d"
proof -
  assume "d < 10"
  then have "d = 0 \<or> d = 1 \<or> d = 2 \<or> d = 3 \<or> d = 4 \<or> d = 5 \<or> d = 6 \<or> d = 7 \<or> d = 8 \<or> d = 9"
    by arith
  then show ?thesis
    by (elim disjE) (simp_all add: digit_val_def digit_chars_def)
qed

lemma str_nat_digits: "set (str_nat n) \<subseteq> set digit_chars \<and> str_nat n \<noteq> []"
proof (induction n rule: str_nat.induct)
  case (1 n)
  show ?case
  proof (cases "n < 10")
    case True
    then show ?thesis using digit_char_mem[of n] by (subst (1 2) str_nat.simps) simp
  next
    case False
    with 1 have ih: "set (str_nat (n div 10)) \<subseteq> set digit_chars" by simp
    have "n mod 10 < 10" by simp
    then have "digit_chars ! (n mod 10) \<in> set digit_chars" by (rule digit_char_mem)
    with ih False show ?thesis by (subst (1 2) str_nat.simps) simp
  qed
qed

lemma is_ascii_str_nat: "is_ascii (str_nat n)"
  using str_nat_digits[of n] by (auto simp: is_ascii_def list_all_iff digit_chars_def)

lemma isdigit_str_nat: "isdigit lib (str_nat n)"
  using str_nat_digits[of n] by (auto simp: isdigit_def is_ascii_str_nat ascii_isdigit_def list_all_iff)

lemma no_dash_str_nat: "CHR ''-'' \<notin> set (str_nat n)"
  using str_nat_digits[of n] by (auto simp: digit_chars_def)

lemma int_of_digits_snoc: "int_of_digits (a @ [c]) = 10 * int_of_digits a + digit_val c"
  by (simp add: int_of_digits_def)

lemma int_of_digits_str_nat: "int_of_digits (str_nat n) = n"
proof (induction n rule: str_nat.induct)
  case (1 n)
  show ?case
  proof (cases "n < 10")
    case True
    then show ?thesis
      by (subst str_nat.simps) (simp add: int_of_digits_def digit_val_nth)
  next
    case False
    with 1 have ih: "int_of_digits (str_nat (n div 10)) = n div 10" by simp
    have "int_of_digits (str_nat n) = int_of_digits (str_nat (n div 10) @ [digit_chars ! (n mod 10)])"
      using False by (subst str_nat.simps) simp
    also have "\<dots> = 10 * (n div 10) + n mod 10"
      by (simp add: int_of_digits_snoc ih digit_val_nth)
    finally show ?thesis by simp
  qed
qed

lemma int_str_str_nat: "int_str lib (str_nat n) = Inr n"
  by (simp add: int_str_def is_ascii_str_nat int_of_digits_str_nat)

lemma id_with_prefix:
  assumes "\<not> isdigit lib kind" "CHR ''-'' \<notin> set kind"
  shows "find_index lib (split_on (CHR ''-'') (kind @ ''-'' @ str_nat n)) = Inr (int n)"
    and "find_index lib (split_on (CHR ''-'') (kind @ ''-'' @ str_nat n @ ''-'' @ loc)) = Inr (int n)"
proof -
  have "split_on (CHR ''-'') (kind @ ''-'' @ str_nat n) = [kind, str_nat n]"
    using assms(2) no_dash_str_nat[of n]
    by (simp add: split_on_def split_from_append split_from_nosep)
  then show "find_index lib (split_on (CHR ''-'') (kind @ ''-'' @ str_nat n)) = Inr (int n)"
    using assms(1) by (simp add: isdigit_str_nat int_str_str_nat)
  have "split_on (CHR ''-'') (kind @ ''-'' @ str_nat n @ ''-'' @ loc) =
          kind # str_nat n # split_from (CHR ''-'') [] loc"
    using assms(2) no_dash_str_nat[of n]
    by (simp add: split_on_def split_from_append)
  then show "find_index lib (split_on (CHR ''-'') (kind @ ''-'' @ str_nat n @ ''-'' @ loc)) = Inr (int n)"
    using assms(1) by (simp add: isdigit_str_nat int_str_str_nat)
qed

lemma id_invalid: "find_index lib (split_on (CHR ''-'') (finding_id (invalid_finding lib it g))) = Inr (int (line_no it))"
  using id_with_prefix(1)[of lib "''invalid''" "line_no it"]
  by (simp add: invalid_finding_def isdigit_def is_ascii_def ascii_isdigit_def digit_chars_def)

lemma id_short: "find_index lib (split_on (CHR ''-'') (finding_id (short_finding lib it g))) = Inr (int (line_no it))"
  using id_with_prefix(1)[of lib "''short''" "line_no it"]
  by (simp add: short_finding_def isdigit_def is_ascii_def ascii_isdigit_def digit_chars_def)

lemma id_dangle: "find_index lib (split_on (CHR ''-'') (finding_id (dangle_finding lib tol ep))) = Inr (int (ep_line_no ep))"
  using id_with_prefix(2)[of lib "''dangle''" "ep_line_no ep" "ep_loc ep"]
  by (simp add: dangle_finding_def isdigit_def is_ascii_def ascii_isdigit_def digit_chars_def)

text \<open>
  The loader of the diagnostics gives every entry a line number above its id: an entry
  takes at least one line, and line numbers start at 1. Every finding of the three checks
  carries the id and the line number of an entry, and its id text is built from the line
  number.
\<close>

lemma qa_load_loop_inv:
  assumes "\<forall>it \<in> set acc. item_id it < line_no it"
    and "buf = [] \<longrightarrow> length acc \<le> i"
    and "buf \<noteq> [] \<longrightarrow> length acc < start \<and> start \<le> i"
  shows "\<forall>it \<in> set (qa_load_loop lib lines i buf start acc). item_id it < line_no it"
  using assms
proof (induction lines arbitrary: i buf start acc)
  case Nil
  then show ?case by simp
next
  case (Cons line_str rest)
  show ?case
  proof (cases "strip lib line_str = []")
    case True
    have "\<forall>it \<in> set (qa_load_loop lib rest (Suc i) buf start acc). item_id it < line_no it"
      using Cons.prems by (intro Cons.IH) auto
    with True show ?thesis by simp
  next
    case False
    define start' where "start' = (if buf = [] then i + 1 else start)"
    define buf' where "buf' = buf @ strip lib line_str @ '' ''"
    have s1: "length acc < start'" and s2: "start' \<le> Suc i"
      using Cons.prems by (auto simp: start'_def)
    have b: "buf' \<noteq> []" by (simp add: buf'_def)
    have step: "qa_load_loop lib (line_str # rest) i buf start acc =
      (if endswith (strip lib line_str) '')'' then
          (case wkt_loads lib (last (split_on (CHR '';'') buf')) of
             Inr g \<Rightarrow>
               if \<not> is_empty g then
                 qa_load_loop lib rest (Suc i) [] start'
                   (acc @ [\<lparr>item_id = length acc, line_no = start', item_geom = Some g\<rparr>])
               else qa_load_loop lib rest (Suc i) [] start' acc
           | Inl ex \<Rightarrow> qa_load_loop lib rest (Suc i) [] start' acc)
        else qa_load_loop lib rest (Suc i) buf' start' acc)"
      unfolding start'_def buf'_def using False by (simp add: Let_def)
    have keep: "\<forall>it \<in> set (qa_load_loop lib rest (Suc i) [] start' acc). item_id it < line_no it"
      using Cons.prems(1) s1 s2 by (intro Cons.IH) auto
    have more: "\<forall>it \<in> set (qa_load_loop lib rest (Suc i) buf' start' acc). item_id it < line_no it"
      using Cons.prems(1) s1 s2 b by (intro Cons.IH) auto
    have add: "\<forall>it \<in> set (qa_load_loop lib rest (Suc i) [] start'
                   (acc @ [\<lparr>item_id = length acc, line_no = start', item_geom = Some g\<rparr>])).
                 item_id it < line_no it" for g
      using Cons.prems(1) s1 s2 by (intro Cons.IH) auto
    show ?thesis
      unfolding step using keep more add by (auto split: sum.splits)
  qed
qed

lemma qa_load_ids: "\<forall>it \<in> set (qa_load lib content). item_id it < line_no it"
  unfolding qa_load_def by (rule qa_load_loop_inv) simp_all

lemma validity_findings:
  "validity_checks lib lines_data = Inr fs \<Longrightarrow> f \<in> set fs \<Longrightarrow>
     \<exists>it \<in> set lines_data. \<exists>g. f = invalid_finding lib it g"
proof (induction lines_data arbitrary: fs)
  case Nil
  then show ?case by simp
next
  case (Cons it rest)
  from Cons.prems(1) obtain g fs' where g: "item_geom it = Some g"
    and r: "validity_checks lib rest = Inr fs'"
    and fs: "fs = (if \<not> is_valid lib g then invalid_finding lib it g # fs' else fs')"
    by (auto split: option.splits sum.splits)
  from fs Cons.prems(2) have "f = invalid_finding lib it g \<or> f \<in> set fs'"
    by (auto split: if_splits)
  then show ?case
  proof
    assume "f = invalid_finding lib it g"
    then show ?thesis by auto
  next
    assume "f \<in> set fs'"
    from Cons.IH[OF r this] show ?thesis by auto
  qed
qed

lemma short_findings:
  "f \<in> set (find_short_lines lib lines_data min_len) \<Longrightarrow>
     \<exists>it \<in> set lines_data. \<exists>g. f = short_finding lib it g"
  by (auto simp: find_short_lines_def split: option.splits if_splits)

lemma map_exn_member:
  "map_exn h xs = Inr ys \<Longrightarrow> y \<in> set (concat ys) \<Longrightarrow> \<exists>x \<in> set xs. \<exists>l. h x = Inr l \<and> y \<in> set l"
proof (induction xs arbitrary: ys)
  case Nil
  then show ?case by simp
next
  case (Cons x xs)
  from Cons.prems(1) obtain l ls where l: "h x = Inr l" and ls: "map_exn h xs = Inr ls"
    and ys: "ys = l # ls"
    by (auto split: sum.splits)
  from Cons.prems(2) ys have "y \<in> set l \<or> y \<in> set (concat ls)" by auto
  then show ?case
  proof
    assume "y \<in> set l"
    with l show ?thesis by auto
  next
    assume "y \<in> set (concat ls)"
    from Cons.IH[OF ls this] show ?thesis by auto
  qed
qed

lemma dangle_findings:
  assumes "find_dangles lib lines_data tol = Inr fs" "f \<in> set fs"
  shows "\<exists>ep \<in> set (collect_endpoints lines_data). f = dangle_finding lib tol ep"
proof -
  from assms(1) obtain ys where
    ys: "map_exn (check_endpoint lib lines_data tol) (collect_endpoints lines_data) = Inr ys"
    and fs: "fs = concat ys"
    by (auto simp: find_dangles_def split: sum.splits)
  from map_exn_member[OF ys] assms(2) fs obtain ep l where
    ep: "ep \<in> set (collect_endpoints lines_data)" "check_endpoint lib lines_data tol ep = Inr l" "f \<in> set l"
    by blast
  from ep(2,3) have "f = dangle_finding lib tol ep"
    by (auto simp: check_endpoint_def split: sum.splits if_splits)
  with ep(1) show ?thesis by blast
qed

lemma findings_ids:
  assumes run: "run_geometry_qa lib content = Findings fs" and f: "f \<in> set fs"
  shows "find_index lib (split_on (CHR ''-'') (finding_id f)) = Inr (int (line_number f)) \<and>
         geometry_index f < line_number f"
proof -
  let ?ld = "qa_load lib content"
  from run obtain invalid dangles where
    v: "validity_checks lib ?ld = Inr invalid" and
    d: "find_dangles lib ?ld TOLERANCE = Inr dangles" and
    fs: "fs = invalid @ dangles @ find_short_lines lib ?ld MIN_LINE_LENGTH"
    by (auto simp: run_geometry_qa_def Let_def split: if_splits sum.splits)
  from f fs consider "f \<in> set invalid" | "f \<in> set dangles"
    | "f \<in> set (find_short_lines lib ?ld MIN_LINE_LENGTH)" by auto
  then show ?thesis
  proof cases
    case 1
    from validity_findings[OF v 1] obtain it g where "it \<in> set ?ld" "f = invalid_finding lib it g"
      by blast
    with qa_load_ids[of lib content] id_invalid[of lib it g] show ?thesis
      by (auto simp: invalid_finding_def)
  next
    case 2
    from dangle_findings[OF d 2] obtain ep where
      ep: "ep \<in> set (collect_endpoints ?ld)" "f = dangle_finding lib TOLERANCE ep" by blast
    from endpoint_owner[OF ep(1)] obtain it where
      "it \<in> set ?ld" "ep_line_idx ep = item_id it" "ep_line_no ep = line_no it" by blast
    with qa_load_ids[of lib content] ep(2) id_dangle[of lib TOLERANCE ep] show ?thesis
      by (auto simp: dangle_finding_def)
  next
    case 3
    from short_findings[OF 3] obtain it g where "it \<in> set ?ld" "f = short_finding lib it g"
      by blast
    with qa_load_ids[of lib content] id_short[of lib it g] show ?thesis
      by (auto simp: short_finding_def)
  qed
qed

lemma validity_two_lines: "validity_checks planar two_lines_data = Inr []"
  by (simp add: two_lines_data_def planar_def)

lemma short_two_lines: "find_short_lines planar two_lines_data MIN_LINE_LENGTH = []"
  by (simp add: find_short_lines_def two_lines_data_def lines_not_empty planar_def planar_length_def
      line_a_def line_b_def sq_dist_def sqrt_100 MIN_LINE_LENGTH_def)

lemma run_two_lines: "run_geometry_qa planar two_lines_text = Findings [dangle_a_start, dangle_b_end]"
  unfolding run_geometry_qa_def qa_load_two_lines Let_def validity_two_lines short_two_lines
    dangles_two_lines[of planar, unfolded planar_distance_update] dangle_a_start_def dangle_b_end_def
  by (simp add: two_lines_data_def)

lemma id_a_start: "finding_id dangle_a_start = ''dangle-1-start''"
  by (simp add: dangle_a_start_def dangle_finding_def str_nat.simps digit_chars_def)

lemma id_b_end: "finding_id dangle_b_end = ''dangle-2-end''"
  by (simp add: dangle_b_end_def dangle_finding_def str_nat.simps digit_chars_def)

lemma index_a_start: "find_index planar (split_on (CHR ''-'') ''dangle-1-start'') = Inr 1"
  by (simp add: split_on_def isdigit_def int_str_def is_ascii_def ascii_isdigit_def digit_chars_def
      int_of_digits_def digit_val_def)

lemma index_b_end: "find_index planar (split_on (CHR ''-'') ''dangle-2-end'') = Inr 2"
  by (simp add: split_on_def isdigit_def int_str_def is_ascii_def ascii_isdigit_def digit_chars_def
      int_of_digits_def digit_val_def)

lemma delete_by_a_start:
  "apply_fix planar two_lines ''dangle-1-start'' ''DELETE'' None =
     (Some \<lparr>success = True, message = ''Deleted geometry''\<rparr>,
      two_lines\<lparr>current_geometries := [Some line_a, None],
        applied_fixes := [\<lparr>error_id = ''dangle-1-start'', fix_type = ''DELETE'',
                           original = wkt planar line_b,
                           result = ''Deleted geometry'', timestamp = ''now''\<rparr>]\<rparr>)"
  unfolding apply_fix_def apply_fix_body_def Let_def index_a_start dispatch_def upper_DELETE
  by (simp add: two_lines_def)

lemma delete_by_b_end:
  "apply_fix planar two_lines ''dangle-2-end'' ''DELETE'' None =
     (Some \<lparr>success = False, message = ''Invalid geometry index: 2''\<rparr>, two_lines)"
  unfolding apply_fix_def apply_fix_body_def Let_def index_b_end
  by (simp add: two_lines_def str_int_def str_nat.simps digit_chars_def)

lemma out_of_bounds_fails:
  assumes "find_index lib (split_on (CHR ''-'') eid) = Inr (int n)" "length (current_geometries e) \<le> n"
  shows "apply_fix lib e eid ftype params =
           (Some \<lparr>success = False, message = ''Invalid geometry index: '' @ str_nat n\<rparr>, e)"
  using assms by (simp add: apply_fix_def apply_fix_body_def str_int_def)

text \<open>
  C10. For every finding of the diagnostics, the index \<open>apply_fix\<close> reads from its id (the
  first token of digits) is the finding's line number, the 1-based number of the first
  line of its statement, and that number is above the finding's \<open>geometry_index\<close>: the id
  never resolves to the finding's own geometry, and the call fails as out of bounds
  whenever the line number is not below the length of the list. For the two-line data,
  the finding for geometry 0 has the id \<open>dangle-1-start\<close>, and DELETE with it deletes
  geometry 1; the finding for geometry 1 has the id \<open>dangle-2-end\<close>, and DELETE with it
  fails with \<open>Invalid geometry index: 2\<close>.
\<close>

theorem finding_id_is_line_number:
  "(\<forall>fs f. run_geometry_qa lib content = Findings fs \<and> f \<in> set fs \<longrightarrow>
      find_index lib (split_on (CHR ''-'') (finding_id f)) = Inr (int (line_number f)) \<and>
      geometry_index f < line_number f \<and>
      (\<forall>e ftype params. length (current_geometries e) \<le> line_number f \<longrightarrow>
         apply_fix lib e (finding_id f) ftype params =
           (Some \<lparr>success = False,
                  message = ''Invalid geometry index: '' @ str_nat (line_number f)\<rparr>, e))) \<and>
   run_geometry_qa planar two_lines_text = Findings [dangle_a_start, dangle_b_end] \<and>
   fst (load_wkt_content planar two_lines two_lines_text) = two_lines \<and>
   geometry_index dangle_a_start = 0 \<and>
   current_geometries (snd (apply_fix planar two_lines (finding_id dangle_a_start) ''DELETE'' None)) =
     [Some line_a, None] \<and>
   geometry_index dangle_b_end = 1 \<and>
   apply_fix planar two_lines (finding_id dangle_b_end) ''DELETE'' None =
     (Some \<lparr>success = False, message = ''Invalid geometry index: 2''\<rparr>, two_lines)"
proof -
  have general: "\<forall>fs f. run_geometry_qa lib content = Findings fs \<and> f \<in> set fs \<longrightarrow>
      find_index lib (split_on (CHR ''-'') (finding_id f)) = Inr (int (line_number f)) \<and>
      geometry_index f < line_number f \<and>
      (\<forall>e ftype params. length (current_geometries e) \<le> line_number f \<longrightarrow>
         apply_fix lib e (finding_id f) ftype params =
           (Some \<lparr>success = False,
                  message = ''Invalid geometry index: '' @ str_nat (line_number f)\<rparr>, e))"
  proof (intro allI impI)
    fix fs f assume a: "run_geometry_qa lib content = Findings fs \<and> f \<in> set fs"
    then have ids: "find_index lib (split_on (CHR ''-'') (finding_id f)) = Inr (int (line_number f)) \<and>
         geometry_index f < line_number f"
      using findings_ids[of lib content fs f] by blast
    then have "\<forall>e ftype params. length (current_geometries e) \<le> line_number f \<longrightarrow>
         apply_fix lib e (finding_id f) ftype params =
           (Some \<lparr>success = False,
                  message = ''Invalid geometry index: '' @ str_nat (line_number f)\<rparr>, e)"
      using out_of_bounds_fails[of lib "finding_id f" "line_number f"] by blast
    with ids show "find_index lib (split_on (CHR ''-'') (finding_id f)) = Inr (int (line_number f)) \<and>
      geometry_index f < line_number f \<and>
      (\<forall>e ftype params. length (current_geometries e) \<le> line_number f \<longrightarrow>
         apply_fix lib e (finding_id f) ftype params =
           (Some \<lparr>success = False,
                  message = ''Invalid geometry index: '' @ str_nat (line_number f)\<rparr>, e))"
      by blast
  qed
  have g1: "geometry_index dangle_a_start = 0" by (simp add: dangle_a_start_def dangle_finding_def)
  have g2: "geometry_index dangle_b_end = 1" by (simp add: dangle_b_end_def dangle_finding_def)
  have d1: "current_geometries (snd (apply_fix planar two_lines (finding_id dangle_a_start) ''DELETE'' None)) =
     [Some line_a, None]"
    unfolding id_a_start delete_by_a_start by simp
  have d2: "apply_fix planar two_lines (finding_id dangle_b_end) ''DELETE'' None =
     (Some \<lparr>success = False, message = ''Invalid geometry index: 2''\<rparr>, two_lines)"
    unfolding id_b_end by (rule delete_by_b_end)
  from general run_two_lines load_two_lines g1 g2 d1 d2 show ?thesis by blast
qed

theorem finding_id_is_line_number_witness:
  "run_geometry_qa planar two_lines_text = Findings [dangle_a_start, dangle_b_end] \<and>
   find_index planar (split_on (CHR ''-'') (finding_id dangle_a_start)) = Inr 1 \<and>
   geometry_index dangle_a_start = 0 \<and> line_number dangle_a_start = 1"
proof -
  note t = finding_id_is_line_number[of planar two_lines_text]
  from t have run: "run_geometry_qa planar two_lines_text = Findings [dangle_a_start, dangle_b_end]"
    by blast
  have mem: "dangle_a_start \<in> set [dangle_a_start, dangle_b_end]" by simp
  from t run mem have "find_index planar (split_on (CHR ''-'') (finding_id dangle_a_start)) =
      Inr (int (line_number dangle_a_start))"
    by blast
  moreover have "line_number dangle_a_start = 1" "geometry_index dangle_a_start = 0"
    by (simp_all add: dangle_a_start_def dangle_finding_def)
  ultimately show ?thesis using run by simp
qed

end
